theory Spec2Isabelle
  imports Complex_Main "HOL-Library.Extended_Nat"
begin

section \<open>Strings as the worker uses them\<close>

text \<open>
  Project identifiers are nano-ids: short ASCII strings over letters, digits, \<open>_\<close> and
  \<open>-\<close>. JavaScript strings are modelled as \<open>string\<close> (a list of 8-bit characters);
  \<open>toLowerCase\<close> maps \<open>A\<close>..\<open>Z\<close> to \<open>a\<close>..\<open>z\<close> and leaves every other character alone, which
  is what \<open>String.prototype.toLowerCase\<close> does on ASCII text.
\<close>

definition toLowerCase_char :: "char \<Rightarrow> char" where
  "toLowerCase_char c =
     (if 65 \<le> (of_char c :: nat) \<and> (of_char c :: nat) \<le> 90
      then char_of ((of_char c :: nat) + 32) else c)"

definition toLowerCase :: "string \<Rightarrow> string" where
  "toLowerCase s = map toLowerCase_char s"

text \<open>\<open>s.replace(/-/g, '_')\<close>: every hyphen becomes an underscore.\<close>

definition replace_hyphens :: "string \<Rightarrow> string" where
  "replace_hyphens s = map (\<lambda>c. if c = CHR ''-'' then CHR ''_'' else c) s"

text \<open>\<open>hay.startsWith(needle)\<close>, \<open>hay.includes(needle)\<close> and \<open>hay.endsWith(needle)\<close>.\<close>

fun startsWith :: "string \<Rightarrow> string \<Rightarrow> bool" where
  "startsWith hay [] = True"
| "startsWith [] (n # ns) = False"
| "startsWith (h # hs) (n # ns) = (h = n \<and> startsWith hs ns)"

fun str_includes :: "string \<Rightarrow> string \<Rightarrow> bool" where
  "str_includes [] needle = startsWith [] needle"
| "str_includes (h # hs) needle = (startsWith (h # hs) needle \<or> str_includes hs needle)"

definition endsWith :: "string \<Rightarrow> string \<Rightarrow> bool" where
  "endsWith hay needle = startsWith (rev hay) (rev needle)"

section \<open>Deterministic names derived from the project id\<close>

text \<open>
  \<open>databaseProvisioner.js\<close>, line 12:
  \<^verbatim>\<open>const dbName = `turbobackend_proj_${projectId.replace(/-/g, '_')}`.toLowerCase();\<close>
\<close>

definition provisionAndCreateTables_dbName :: "string \<Rightarrow> string" where
  "provisionAndCreateTables_dbName projectId =
     toLowerCase (''turbobackend_proj_'' @ replace_hyphens projectId)"

text \<open>
  \<open>devDatabaseExecutor.js\<close>, line 23 (taken when the project has no active database row):
  \<^verbatim>\<open>const dbName = `turbobackend_proj_${projectId.replace(/-/g, '_')}`;\<close>
\<close>

definition executeDevDatabaseQueries_dbName :: "string \<Rightarrow> string" where
  "executeDevDatabaseQueries_dbName projectId =
     ''turbobackend_proj_'' @ replace_hyphens projectId"

text \<open>
  The deployment app name, written the same way in \<open>projectCreationExecutionHandler.js\<close>
  (lines 204 and 215) and in \<open>flyioService.js\<close> (lines 9, 114, 156, 198):
  \<^verbatim>\<open>const appName = `turbobackend-${project_id}`.toLowerCase();\<close>
\<close>

definition appName :: "string \<Rightarrow> string" where
  "appName projectId = toLowerCase (''turbobackend-'' @ projectId)"

text \<open>
  The slugs as the specification words them (invariant I5), kept apart from the
  definitions above, which follow the source: \<open>turbobackend_proj_\<close> followed by the project
  id lowercased with hyphens replaced by underscores, and \<open>turbobackend-\<close> followed by the
  project id lowercased.
\<close>

definition spec_dbName :: "string \<Rightarrow> string" where
  "spec_dbName projectId = ''turbobackend_proj_'' @ replace_hyphens (toLowerCase projectId)"

definition spec_appName :: "string \<Rightarrow> string" where
  "spec_appName projectId = ''turbobackend-'' @ toLowerCase projectId"

section \<open>Agent commands and the sandbox (\<open>agentCommandExecutor.js\<close>)\<close>

text \<open>
  A command the agent emits, by its \<open>type\<close> tag: \<open>execute(command)\<close>, \<open>write(path, content)\<close>,
  \<open>read(path)\<close>, \<open>delete(path)\<close>, \<open>db_query(query, schemaName, queryType)\<close>, and any other
  tag, which the executor's \<open>switch\<close> sends to its \<open>default\<close> branch.
\<close>

datatype command =
    Execute string
  | Write string string
  | Read string
  | Delete string
  | DbQuery string string string
  | Unknown string

text \<open>
  The Daytona SDK as the helpers of \<open>daytonaService.js\<close> call it. The sandbox is an external
  system: its state is a type parameter, and a call either throws (\<open>Inl\<close> of the error
  message) or returns (\<open>Inr\<close>). \<open>getUserHomeDir\<close> stands for the two calls every helper starts
  with, \<open>getContainer(containerId)\<close> and then \<open>sandbox.getUserHomeDir()\<close>, which read and do not
  change the sandbox; when no sandbox has the id, \<open>getContainer\<close> returns \<open>undefined\<close> and the
  second call throws a \<open>TypeError\<close>. \<open>process_executeCommand\<close> takes the command and the
  directory, \<open>fs_uploadFile\<close> the content and the full path, \<open>fs_downloadFile\<close> and \<open>fs_delete\<close>
  the full path.
\<close>

record 's daytona_sdk =
  getUserHomeDir :: "string \<Rightarrow> 's \<Rightarrow> string + string"
  process_executeCommand :: "string \<Rightarrow> string \<Rightarrow> 's \<Rightarrow> (string + string) \<times> 's"
  fs_uploadFile :: "string \<Rightarrow> string \<Rightarrow> 's \<Rightarrow> (string + unit) \<times> 's"
  fs_downloadFile :: "string \<Rightarrow> 's \<Rightarrow> (string + string) \<times> 's"
  fs_delete :: "string \<Rightarrow> 's \<Rightarrow> (string + unit) \<times> 's"

text \<open>
  What a command's \<open>result\<close> holds: the response of \<open>executeCommand\<close>; \<open>{success: true, path}\<close>
  of a write; the content a read returns; \<open>{success: true}\<close> of a delete; \<open>undefined\<close>; and,
  for a \<open>db_query\<close>, the object \<open>{stored: true, query}\<close>.
\<close>

datatype cmd_value =
    Response string
  | Written string
  | Content string
  | Deleted
  | Undefined
  | Stored string

text \<open>
  \<open>executeCommandInContainer\<close> (\<open>daytonaService.js\<close>, lines 296 to 316): the command runs in
  the home directory, raced against a timer; the rejection of either is the throw of
  \<open>process_executeCommand\<close>.
\<close>

definition executeCommandInContainer ::
  "'s daytona_sdk \<Rightarrow> string \<Rightarrow> string \<Rightarrow> 's \<Rightarrow> (string + string) \<times> 's" where
  "executeCommandInContainer sdk containerId command s =
     (case getUserHomeDir sdk containerId s of
        Inl e \<Rightarrow> (Inl e, s)
      | Inr rootDirPath \<Rightarrow> process_executeCommand sdk command rootDirPath s)"

text \<open>\<open>writeFileInContainer\<close> (lines 333 to 345): upload, then return \<open>{success: true, path}\<close>.\<close>

definition writeFileInContainer ::
  "'s daytona_sdk \<Rightarrow> string \<Rightarrow> string \<Rightarrow> string \<Rightarrow> 's \<Rightarrow> (string + cmd_value) \<times> 's" where
  "writeFileInContainer sdk containerId path content s =
     (case getUserHomeDir sdk containerId s of
        Inl e \<Rightarrow> (Inl e, s)
      | Inr rootDirPath \<Rightarrow>
          (case fs_uploadFile sdk content (rootDirPath @ ''/'' @ path) s of
             (Inl e, s') \<Rightarrow> (Inl e, s')
           | (Inr u, s') \<Rightarrow> (Inr (Written path), s')))"

text \<open>\<open>readFileFromContainer\<close> (lines 350 to 360): download and return the content.\<close>

definition readFileFromContainer ::
  "'s daytona_sdk \<Rightarrow> string \<Rightarrow> string \<Rightarrow> 's \<Rightarrow> (string + string) \<times> 's" where
  "readFileFromContainer sdk containerId path s =
     (case getUserHomeDir sdk containerId s of
        Inl e \<Rightarrow> (Inl e, s)
      | Inr rootDirPath \<Rightarrow> fs_downloadFile sdk (rootDirPath @ ''/'' @ path) s)"

text \<open>
  \<open>deleteFileInContainer\<close> (lines 365 to 375): the whole body is inside a \<open>try\<close> whose \<open>catch\<close>
  logs the error and falls off the end of the function. It returns \<open>{success: true}\<close>, or
  \<open>undefined\<close> when anything in it threw; it never throws.
\<close>

definition deleteFileInContainer ::
  "'s daytona_sdk \<Rightarrow> string \<Rightarrow> string \<Rightarrow> 's \<Rightarrow> cmd_value \<times> 's" where
  "deleteFileInContainer sdk containerId path s =
     (case getUserHomeDir sdk containerId s of
        Inl e \<Rightarrow> (Undefined, s)
      | Inr rootDirPath \<Rightarrow>
          (case fs_delete sdk (rootDirPath @ ''/'' @ path) s of
             (Inl e, s') \<Rightarrow> (Undefined, s')
           | (Inr u, s') \<Rightarrow> (Deleted, s')))"

text \<open>
  One entry of the executor's result list: \<open>{command, success: true, result}\<close> or
  \<open>{command, success: false, error}\<close>. An absent property is \<open>None\<close>.
\<close>

record exec_result =
  exec_command :: command
  exec_success :: bool
  exec_value :: "cmd_value option"
  exec_error :: "string option"

text \<open>The body of the \<open>switch\<close> (lines 18 to 42): the value it leaves in \<open>result\<close>, or the throw.\<close>

fun run_command :: "'s daytona_sdk \<Rightarrow> string \<Rightarrow> command \<Rightarrow> 's \<Rightarrow> (string + cmd_value) \<times> 's" where
  "run_command sdk containerId (Execute c) s =
     (case executeCommandInContainer sdk containerId c s of
        (Inl e, s') \<Rightarrow> (Inl e, s') | (Inr v, s') \<Rightarrow> (Inr (Response v), s'))"
| "run_command sdk containerId (Write p c) s = writeFileInContainer sdk containerId p c s"
| "run_command sdk containerId (Read p) s =
     (case readFileFromContainer sdk containerId p s of
        (Inl e, s') \<Rightarrow> (Inl e, s') | (Inr v, s') \<Rightarrow> (Inr (Content v), s'))"
| "run_command sdk containerId (Delete p) s =
     (case deleteFileInContainer sdk containerId p s of (v, s') \<Rightarrow> (Inr v, s'))"
| "run_command sdk containerId (DbQuery q sn qt) s = (Inr (Stored q), s)"
| "run_command sdk containerId (Unknown t) s = (Inl (''Unknown command type: '' @ t), s)"

text \<open>The \<open>try\<close>/\<open>catch\<close> around the switch (lines 15 to 56): the entry pushed for one command.\<close>

definition result_entry :: "command \<Rightarrow> string + cmd_value \<Rightarrow> exec_result" where
  "result_entry cmd r =
     (case r of
        Inr v \<Rightarrow> \<lparr>exec_command = cmd, exec_success = True, exec_value = Some v, exec_error = None\<rparr>
      | Inl e \<Rightarrow> \<lparr>exec_command = cmd, exec_success = False, exec_value = None, exec_error = Some e\<rparr>)"

text \<open>
  \<open>executeAgentCommands(containerId, commands)\<close>: the \<open>for\<close> loop over the commands, with the
  sandbox state passed from each command to the next. It returns the result list and
  the sandbox state it leaves.
\<close>

fun executeAgentCommands ::
  "'s daytona_sdk \<Rightarrow> string \<Rightarrow> command list \<Rightarrow> 's \<Rightarrow> exec_result list \<times> 's" where
  "executeAgentCommands sdk containerId [] s = ([], s)"
| "executeAgentCommands sdk containerId (cmd # rest) s =
     (case run_command sdk containerId cmd s of
        (r, s') \<Rightarrow>
          (case executeAgentCommands sdk containerId rest s' of
             (rs, s'') \<Rightarrow> (result_entry cmd r # rs, s'')))"

text \<open>The sandbox state in which the command at position \<open>i\<close> is attempted.\<close>

definition state_before :: "'s daytona_sdk \<Rightarrow> string \<Rightarrow> command list \<Rightarrow> 's \<Rightarrow> nat \<Rightarrow> 's" where
  "state_before sdk containerId cmds s i = snd (executeAgentCommands sdk containerId (take i cmds) s)"

text \<open>
  A small concrete sandbox for evaluation: the state is the list of files (full path and
  content) and the home directory is \<open>/home/daytona\<close>; downloading or deleting a missing
  file throws, and a shell command named \<open>false\<close> throws.
\<close>

definition demo_sandbox :: "(string \<times> string) list daytona_sdk" where
  "demo_sandbox =
     \<lparr>getUserHomeDir = (\<lambda>cid fs. Inr ''/home/daytona''),
      process_executeCommand = (\<lambda>c dir fs.
        if c = ''false'' then (Inl ''Command failed'', fs) else (Inr ''ok'', fs)),
      fs_uploadFile = (\<lambda>c p fs. (Inr (), (p, c) # filter (\<lambda>f. fst f \<noteq> p) fs)),
      fs_downloadFile = (\<lambda>p fs.
        case map_of fs p of None \<Rightarrow> (Inl ''File not found'', fs) | Some c \<Rightarrow> (Inr c, fs)),
      fs_delete = (\<lambda>p fs.
        case map_of fs p of None \<Rightarrow> (Inl ''File not found'', fs)
        | Some c \<Rightarrow> (Inr (), filter (\<lambda>f. fst f \<noteq> p) fs))\<rparr>"

section \<open>The cost accumulator (\<open>messageCostTracker.js\<close>)\<close>

text \<open>
  \<open>PRICING\<close>: dollars per million input and output tokens, by model name. The source
  computes with IEEE doubles; the model uses exact rationals, and no statement below
  depends on the dollar amount.
\<close>

definition PRICING :: "string \<Rightarrow> (rat \<times> rat) option" where
  "PRICING model =
     (if model = ''gemini-2.5-flash-lite'' then Some (75 / 1000, 30 / 100)
      else if model = ''gemini-2.5-flash'' then Some (75 / 1000, 30 / 100)
      else if model = ''grok-beta'' then Some (5, 15)
      else if model = ''grok-3'' then Some (5, 15)
      else if model = ''grok-4-fast'' then Some (20 / 100, 50 / 100)
      else if model = ''gpt-5-nano'' then Some (5 / 100, 40 / 100)
      else None)"

definition calculateCost :: "nat \<Rightarrow> nat \<Rightarrow> string \<Rightarrow> rat" where
  "calculateCost inputTokens outputTokens model =
     (case PRICING model of
        None \<Rightarrow> (of_nat inputTokens / 1000000) * (75 / 1000) + (of_nat outputTokens / 1000000) * (30 / 100)
      | Some (inputPer1M, outputPer1M) \<Rightarrow>
          (of_nat inputTokens / 1000000) * inputPer1M + (of_nat outputTokens / 1000000) * outputPer1M)"

text \<open>
  A row of \<open>message_cost_tracker\<close>. The generated \<open>message_id\<close> and the three clock values
  (\<open>time_to_completion\<close>, \<open>started_at\<close>, \<open>created_at\<close>) are left out: they come from
  \<open>nanoid()\<close> and \<open>Date.now()\<close> and nothing below reads them.
\<close>

record cost_row =
  project_id :: string
  job_id :: string
  user_id :: string
  prompt_content :: string
  message_type :: string
  model :: string
  input_tokens :: nat
  output_tokens :: nat
  cost_usd :: rat

text \<open>
  \<open>trackMessageCost\<close> (lines 69 to 137). \<open>pool_query\<close> is the outcome of the awaited
  \<open>INSERT\<close> on the shared pool: \<open>Some e\<close> when it throws an error with message \<open>e\<close>. On
  success the row is appended to the table; on failure the \<open>catch\<close> block logs and
  executes \<open>throw error\<close> (line 135), so the caller sees the error (\<open>Inl\<close>).
\<close>

definition trackMessageCost ::
  "(cost_row \<Rightarrow> string option) \<Rightarrow> nat \<Rightarrow> nat \<Rightarrow> string \<Rightarrow> string \<Rightarrow> string \<Rightarrow> string
     \<Rightarrow> string \<Rightarrow> string \<Rightarrow> cost_row list \<Rightarrow> (string + cost_row) \<times> cost_row list" where
  "trackMessageCost pool_query inputTokens outputTokens projectId jobId userId promptContent
       messageType modelName table =
     (let row = \<lparr>project_id = projectId, job_id = jobId, user_id = userId,
                  prompt_content = promptContent, message_type = messageType, model = modelName,
                  input_tokens = inputTokens, output_tokens = outputTokens,
                  cost_usd = calculateCost inputTokens outputTokens modelName\<rparr>
      in case pool_query row of
           Some e \<Rightarrow> (Inl e, table)
         | None \<Rightarrow> (Inr row, table @ [row]))"

section \<open>The agentic loop (\<open>agenticLoopExecutor.js\<close>)\<close>

text \<open>What \<open>callLLMNonStream\<close> returns: \<open>{text, usage: {inputTokens, outputTokens}}\<close>
  (\<open>llm_text\<close> is the \<open>text\<close> property).\<close>

record llm_result =
  llm_text :: string
  inputTokens :: nat
  outputTokens :: nat

text \<open>
  The document the agent is asked to emit. \<open>commands\<close> may be absent (the loop reads
  \<open>agentResponse.commands || []\<close>); \<open>taskComplete\<close> is \<open>True\<close> exactly when the property is
  the boolean \<open>true\<close> (the loop tests \<open>=== true\<close>); \<open>apiBlueprint\<close> is optional.
\<close>

record agent_response =
  reasoning :: string
  commands :: "command list option"
  taskComplete :: bool
  summary :: string
  apiBlueprint :: "string option"

record message =
  role :: string
  content :: string

text \<open>
  An entry of \<open>filesModified\<close>. The loop pushes \<open>{path, content, type}\<close>; the modification
  handler later reads a further property \<open>isNew\<close>, which is \<open>None\<close> when the object does
  not have it (\<open>undefined\<close>).
\<close>

record file_entry =
  path :: string
  fileContent :: string
  fileType :: string
  isNew :: "bool option"

text \<open>An entry of \<open>dbQueries\<close>: \<open>{query, schemaName, type}\<close>.\<close>

record db_query =
  query :: string
  schemaName :: string
  queryType :: string

text \<open>\<open>determineFileType\<close> (lines 316 to 323).\<close>

definition determineFileType :: "string \<Rightarrow> string" where
  "determineFileType filePath =
     (if str_includes filePath ''/api/'' then ''route''
      else if str_includes filePath ''/middleware/'' then ''middleware''
      else if str_includes filePath ''/models/'' then ''model''
      else if str_includes filePath ''/utils/'' then ''utility''
      else if endsWith filePath ''.config.ts'' \<or> endsWith filePath ''.config.js'' then ''config''
      else ''other'')"

text \<open>
  The sanitizing pass of the recovery path (lines 176 to 187): every control character
  (codes 0 to 31, and 127) is replaced by its escape when it is newline, carriage
  return, tab, backspace or form feed, and dropped otherwise.
\<close>

definition escapeMap :: "char \<Rightarrow> string" where
  "escapeMap c =
     (if c = CHR 0x0A then [CHR 0x5C, CHR ''n'']
      else if c = CHR 0x0D then [CHR 0x5C, CHR ''r'']
      else if c = CHR 0x09 then [CHR 0x5C, CHR ''t'']
      else if c = CHR 0x08 then [CHR 0x5C, CHR ''b'']
      else if c = CHR 0x0C then [CHR 0x5C, CHR ''f'']
      else [])"

definition sanitize :: "string \<Rightarrow> string" where
  "sanitize s =
     concat (map (\<lambda>c. if (of_char c :: nat) \<le> 31 \<or> (of_char c :: nat) = 127
                        then escapeMap c else [c]) s)"

text \<open>
  What the loop takes from outside. \<open>callLLMNonStream k history\<close> is the outcome of the
  call made in iteration \<open>k\<close> on the conversation so far: it throws (\<open>Inl\<close>) or returns.
  \<open>JSON_parse\<close> is \<open>JSON.parse\<close> restricted to documents of the response shape: \<open>None\<close> when
  it throws. \<open>JSON_stringify\<close> renders the execution results for the next user turn.
  \<open>sandbox\<close> is the Daytona SDK the executor's helpers call. \<open>pool_query\<close> is the outcome
  of the cost row's \<open>INSERT\<close>.
\<close>

record 's agent_env =
  callLLMNonStream :: "nat \<Rightarrow> message list \<Rightarrow> string + llm_result"
  JSON_parse :: "string \<Rightarrow> agent_response option"
  JSON_stringify :: "exec_result list \<Rightarrow> string"
  sandbox :: "'s daytona_sdk"
  pool_query :: "cost_row \<Rightarrow> string option"

text \<open>The local variables of \<open>runAgenticLoop\<close> that the \<open>while\<close> loop updates.\<close>

record 's loop_state =
  iteration :: nat
  conversationHistory :: "message list"
  filesModified :: "file_entry list"
  dbQueries :: "db_query list"
  totalInputTokens :: nat
  totalOutputTokens :: nat
  sandboxState :: 's

text \<open>
  The \<open>for\<close> loop of lines 232 to 247: a \<open>write\<close> command adds a file entry (typed by its
  path, with no \<open>isNew\<close> property), a \<open>db_query\<close> command adds a query entry.
\<close>

fun trackModifications ::
  "command list \<Rightarrow> file_entry list \<times> db_query list \<Rightarrow> file_entry list \<times> db_query list" where
  "trackModifications [] acc = acc"
| "trackModifications (Write p c # rest) (files, queries) =
     trackModifications rest
       (files @ [\<lparr>path = p, fileContent = c, fileType = determineFileType p, isNew = None\<rparr>],
        queries)"
| "trackModifications (DbQuery q sn qt # rest) (files, queries) =
     trackModifications rest
       (files, queries @ [\<lparr>query = q, schemaName = sn, queryType = qt\<rparr>])"
| "trackModifications (cmd # rest) acc = trackModifications rest acc"

definition invalidJsonNotice :: string where
  "invalidJsonNotice = ''ERROR: Your previous response contained invalid JSON with control characters. Please respond with valid JSON only. Ensure all strings are properly escaped.''"

text \<open>
  One pass through the body of the \<open>while\<close> loop after a response has been parsed (lines
  212 to 253): accumulate the token usage, append the assistant turn, execute the
  commands, track the modifications and append the execution results.
\<close>

definition processResponse ::
  "'s agent_env \<Rightarrow> string \<Rightarrow> llm_result \<Rightarrow> agent_response \<Rightarrow> 's loop_state \<Rightarrow> 's loop_state" where
  "processResponse env containerId result agentResponse st =
     (let cmds = (case commands agentResponse of None \<Rightarrow> [] | Some cs \<Rightarrow> cs);
          (executionResults, sbx) = executeAgentCommands (sandbox env) containerId cmds (sandboxState st);
          (files, queries) = trackModifications cmds (filesModified st, dbQueries st)
      in st\<lparr>totalInputTokens := totalInputTokens st + inputTokens result,
             totalOutputTokens := totalOutputTokens st + outputTokens result,
             conversationHistory := conversationHistory st
               @ [\<lparr>role = ''assistant'', content = llm_text result\<rparr>,
                  \<lparr>role = ''user'',
                   content = ''Execution Results:'' @ [CHR 0x0A] @ JSON_stringify env executionResults
                     @ [CHR 0x0A, CHR 0x0A] @ ''Continue working or mark taskComplete: true if done.''\<rparr>],
             filesModified := files,
             dbQueries := queries,
             sandboxState := sbx\<rparr>)"

text \<open>
  The \<open>while (iteration < maxIterations)\<close> loop (lines 157 to 261). \<open>maxIterations\<close> is an
  extended natural number because its default is \<open>Infinity\<close>. The loop need not end, so
  it is a partial function: \<open>None\<close> is a run that never leaves the loop, \<open>Some (Inl e)\<close> a
  run in which \<open>callLLMNonStream\<close> threw, \<open>Some (Inr st)\<close> the variables on leaving the
  loop (by \<open>break\<close> or by the loop condition).

  A response that does not parse, even after sanitizing, takes the \<open>continue\<close> of line
  208: the corrective user turn is appended and nothing else of the body runs.
\<close>

partial_function (option) agenticLoop ::
  "'s agent_env \<Rightarrow> string \<Rightarrow> enat \<Rightarrow> 's loop_state \<Rightarrow> (string + 's loop_state) option" where
  "agenticLoop env containerId maxIterations st =
     (if enat (iteration st) < maxIterations then
        (case callLLMNonStream env (iteration st + 1) (conversationHistory st) of
           Inl e \<Rightarrow> Some (Inl e)
         | Inr result \<Rightarrow>
             (case (case JSON_parse env (llm_text result) of
                      Some r \<Rightarrow> Some r
                    | None \<Rightarrow> JSON_parse env (sanitize (llm_text result))) of
                None \<Rightarrow>
                  agenticLoop env containerId maxIterations
                    (st\<lparr>iteration := iteration st + 1,
                        conversationHistory := conversationHistory st
                          @ [\<lparr>role = ''user'', content = invalidJsonNotice\<rparr>]\<rparr>)
              | Some agentResponse \<Rightarrow>
                  (if taskComplete agentResponse
                   then Some (Inr (processResponse env containerId result agentResponse
                                     (st\<lparr>iteration := iteration st + 1\<rparr>)))
                   else agenticLoop env containerId maxIterations
                          (processResponse env containerId result agentResponse
                             (st\<lparr>iteration := iteration st + 1\<rparr>)))))
      else Some (Inr st))"

declare agenticLoop.simps [code]

text \<open>
  The arguments of \<open>runAgenticLoop\<close> (each field is the argument of that name);
  \<open>arg_systemPrompt\<close> stands for the prompt assembled in lines 34 to 144 from the schema,
  the integration specs and the existing endpoints.
\<close>

record loop_params =
  arg_containerId :: string
  arg_projectId :: string
  arg_userId :: string
  arg_userRequest :: string
  arg_requestId :: string
  arg_systemPrompt :: string
  arg_maxIterations :: enat

text \<open>The object \<open>runAgenticLoop\<close> returns (lines 304 to 313).\<close>

record agent_result =
  success :: bool
  iterations :: nat
  result_filesModified :: "file_entry list"
  result_dbQueries :: "db_query list"
  result_summary :: string
  result_conversationHistory :: "message list"
  totalCost :: rat
  result_apiBlueprint :: "string option"

text \<open>
  \<open>finalResponse\<close> (lines 290 to 302): the last assistant turn that parses (without
  sanitizing) to a response with \<open>taskComplete\<close>, and its blueprint.
\<close>

definition extractApiBlueprint :: "'s agent_env \<Rightarrow> message list \<Rightarrow> string option" where
  "extractApiBlueprint env history =
     (case rev (filter taskComplete
                  (List.map_filter (\<lambda>m. JSON_parse env (content m))
                     (filter (\<lambda>m. role m = ''assistant'') history))) of
        [] \<Rightarrow> None
      | finalResponse # _ \<Rightarrow> apiBlueprint finalResponse)"

text \<open>
  \<open>runAgenticLoop\<close>: initialise, run the loop, then (lines 263 to 280) record the cost
  with \<open>await trackMessageCost(...)\<close>, which is not inside any \<open>try\<close>, and build the
  result. It returns the outcome (the error thrown, or the result object) with the
  \<open>message_cost_tracker\<close> table it leaves; \<open>None\<close> when the loop never ends.
\<close>

text \<open>The loop variables before the first iteration (lines 24 to 31 and 146 to 155).\<close>

definition initialState :: "loop_params \<Rightarrow> 's \<Rightarrow> 's loop_state" where
  "initialState params sbx =
     \<lparr>iteration = 0,
      conversationHistory =
        [\<lparr>role = ''system'', content = arg_systemPrompt params\<rparr>,
         \<lparr>role = ''user'',
          content = ''User Request: '' @ [CHR 0x22] @ arg_userRequest params @ [CHR 0x22]\<rparr>],
      filesModified = [], dbQueries = [],
      totalInputTokens = 0, totalOutputTokens = 0,
      sandboxState = sbx\<rparr>"

definition runAgenticLoop ::
  "'s agent_env \<Rightarrow> loop_params \<Rightarrow> 's \<Rightarrow> cost_row list
     \<Rightarrow> ((string + agent_result) \<times> cost_row list) option" where
  "runAgenticLoop env params sbx table =
     (case agenticLoop env (arg_containerId params) (arg_maxIterations params)
             (initialState params sbx) of
        None \<Rightarrow> None
      | Some (Inl e) \<Rightarrow> Some (Inl e, table)
      | Some (Inr st) \<Rightarrow>
          (case trackMessageCost (pool_query env) (totalInputTokens st) (totalOutputTokens st)
                  (arg_projectId params) (arg_requestId params) (arg_userId params)
                  (arg_userRequest params)
                  ''agentic-container-execution'' ''grok-4-fast'' table of
             (Inl e, table') \<Rightarrow> Some (Inl e, table')
           | (Inr row, table') \<Rightarrow>
               Some (Inr \<lparr>success = (enat (iteration st) < arg_maxIterations params),
                           iterations = iteration st,
                           result_filesModified = filesModified st,
                           result_dbQueries = dbQueries st,
                           result_summary =
                             (if enat (iteration st) < arg_maxIterations params
                              then ''Task completed successfully''
                              else ''Max iterations reached before task completion''),
                           result_conversationHistory = conversationHistory st,
                           totalCost = calculateCost (totalInputTokens st) (totalOutputTokens st)
                                         ''grok-4-fast'',
                           result_apiBlueprint = extractApiBlueprint env (conversationHistory st)\<rparr>,
                     table')))"

section \<open>Classification of a modification (\<open>projectModificationExecutionHandler.js\<close>)\<close>

text \<open>
  \<open>determineModificationType\<close> (lines 294 to 305). \<open>f.isNew\<close> is truthy only when the
  property is present and \<open>true\<close>.
\<close>

definition truthy :: "bool option \<Rightarrow> bool" where
  "truthy b = (b = Some True)"

definition determineModificationType :: "file_entry list \<Rightarrow> string" where
  "determineModificationType files =
     (let hasNewRoutes = list_ex (\<lambda>f. fileType f = ''route'' \<and> truthy (isNew f)) files;
          hasModifiedRoutes = list_ex (\<lambda>f. fileType f = ''route'' \<and> \<not> truthy (isNew f)) files
      in if hasNewRoutes then ''endpoints_added''
         else if hasModifiedRoutes then ''endpoints_modified''
         else ''business_logic_modified'')"


section \<open>The stream, the control database and the job monad\<close>

text \<open>
  The payloads the publisher sends on a channel (\<open>pubsub-handlers.js\<close>): a progress update
  \<open>{message, progress}\<close>, a typed message \<open>{type, ...}\<close> (only its type tag is kept), and a
  terminal message \<open>{complete: true, content, isError}\<close>.
\<close>

datatype stream_message =
    Progress string nat
  | Typed string
  | Complete string bool

fun isTerminal :: "stream_message \<Rightarrow> bool" where
  "isTerminal (Complete c e) = True"
| "isTerminal (Progress m p) = False"
| "isTerminal (Typed t) = False"

fun progressOf :: "stream_message \<Rightarrow> nat list" where
  "progressOf (Progress m p) = [p]"
| "progressOf (Typed t) = []"
| "progressOf (Complete c e) = []"

text \<open>
  What was published is a list of channel and payload, in publish order. \<open>terminalsOn\<close>
  is the list of terminal messages on one channel, \<open>progressValuesOn\<close> the progress values
  on it, in order.
\<close>

definition onChannel :: "string \<Rightarrow> (string \<times> stream_message) list \<Rightarrow> stream_message list" where
  "onChannel streamId trace = map snd (filter (\<lambda>p. fst p = streamId) trace)"

definition terminalsOn :: "string \<Rightarrow> (string \<times> stream_message) list \<Rightarrow> stream_message list" where
  "terminalsOn streamId trace = filter isTerminal (onChannel streamId trace)"

definition progressValuesOn :: "string \<Rightarrow> (string \<times> stream_message) list \<Rightarrow> nat list" where
  "progressValuesOn streamId trace = concat (map progressOf (onChannel streamId trace))"

text \<open>
  A row of the control database: its table, the project and request it belongs to, its
  \<open>is_active\<close> flag (false where the table has none), its creation time and a free-form
  detail (action type, status, name).
\<close>

record row =
  tbl :: string
  r_project :: string
  r_request :: string
  r_active :: bool
  r_created :: nat
  r_detail :: string

text \<open>
  The control database as the job's client sees it: the rows now, and the rows as they
  were at \<open>BEGIN\<close> while a transaction is open. \<open>ROLLBACK\<close> restores the latter.
\<close>

record control_db =
  current :: "row list"
  snapshot :: "row list option"

datatype sql =
    Begin
  | Commit
  | Rollback
  | Insert row
  | Select string
  | Update string string string

fun apply_sql :: "sql \<Rightarrow> control_db \<Rightarrow> control_db" where
  "apply_sql Begin db =
     db\<lparr>snapshot := (case snapshot db of None \<Rightarrow> Some (current db) | Some s \<Rightarrow> Some s)\<rparr>"
| "apply_sql Commit db = db\<lparr>snapshot := None\<rparr>"
| "apply_sql Rollback db =
     (case snapshot db of None \<Rightarrow> db | Some s \<Rightarrow> \<lparr>current = s, snapshot = None\<rparr>)"
| "apply_sql (Insert r) db = db\<lparr>current := current db @ [r]\<rparr>"
| "apply_sql (Select t) db = db"
| "apply_sql (Update t p d) db =
     db\<lparr>current := map (\<lambda>r. if tbl r = t \<and> r_project r = p then r\<lparr>r_detail := d\<rparr> else r)
                       (current db)\<rparr>"

text \<open>
  Everything a job can change: what has been published, the control database, the
  project databases on the cluster (each a name with the statements committed on it), and
  a count of the operations awaited so far, which indexes the environment's outcomes.
\<close>

record world =
  published :: "(string \<times> stream_message) list"
  control :: control_db
  cluster :: "(string \<times> string list) list"
  steps :: nat

text \<open>
  A job's code is a function from the world to an outcome and a new world; the outcome is
  \<open>Inl e\<close> when an error with message \<open>e\<close> is thrown and \<open>Inr a\<close> when \<open>a\<close> is returned.
\<close>

type_synonym 'a job_m = "world \<Rightarrow> (string + 'a) \<times> world"

definition job_return :: "'a \<Rightarrow> 'a job_m" where
  "job_return a = (\<lambda>s. (Inr a, s))"

definition job_throw :: "string \<Rightarrow> 'a job_m" where
  "job_throw e = (\<lambda>s. (Inl e, s))"

definition job_bind :: "'a job_m \<Rightarrow> ('a \<Rightarrow> 'b job_m) \<Rightarrow> 'b job_m" where
  "job_bind m f = (\<lambda>s. case m s of (Inl e, s') \<Rightarrow> (Inl e, s') | (Inr a, s') \<Rightarrow> f a s')"

text \<open>\<open>try { m } catch (error) { h(error.message) }\<close>.\<close>

definition try_catch :: "'a job_m \<Rightarrow> (string \<Rightarrow> 'a job_m) \<Rightarrow> 'a job_m" where
  "try_catch m h = (\<lambda>s. case m s of (Inl e, s') \<Rightarrow> h e s' | (Inr a, s') \<Rightarrow> (Inr a, s'))"

text \<open>A \<open>catch\<close> block that only logs, and one that throws a new error with a prefixed message.\<close>

definition swallow :: "unit job_m \<Rightarrow> unit job_m" where
  "swallow m = try_catch m (\<lambda>e. job_return ())"

definition rethrow :: "string \<Rightarrow> unit job_m \<Rightarrow> unit job_m" where
  "rethrow prefix m = try_catch m (\<lambda>e. job_throw (prefix @ e))"

text \<open>Statements one after another; \<open>when_do c m\<close> is \<open>if (c) { m }\<close>.\<close>

fun exec_all :: "unit job_m list \<Rightarrow> unit job_m" where
  "exec_all [] = job_return ()"
| "exec_all (m # ms) = job_bind m (\<lambda>u. exec_all ms)"

definition when_do :: "bool \<Rightarrow> unit job_m \<Rightarrow> unit job_m" where
  "when_do c m = (if c then m else job_return ())"

section \<open>The environment of a job\<close>

text \<open>
  What the outside world decides during one job. \<open>throws k\<close> and \<open>publishThrows k\<close> say
  whether the operation awaited at count \<open>k\<close> throws, for calls and queries and for
  publishes respectively; \<open>connectThrows\<close>, \<open>logRequestThrows\<close> and \<open>rollbackThrows\<close> do so
  for \<open>pool.connect()\<close> in a handler, for the processor's request log, and for the
  \<open>ROLLBACK\<close> of a handler's \<open>catch\<close> block. The other fields are the values the awaited
  calls return: the three detectors' decisions, the designed tables (name and \<open>createQuery\<close>),
  the result of \<open>runAgenticLoop\<close>, \<open>createFlyApp\<close>'s \<open>success\<close> and \<open>error\<close>, the repository URL
  of the push, whether the stored blueprint is read back, the rendered success text,
  \<open>Date.now()\<close> in seconds and in milliseconds (as text), the generated request id, and for
  the secret sync whether \<open>FLY_API_TOKEN\<close> is set and the exit code and output of \<open>flyctl\<close>.
\<close>

record pipeline_env =
  connectThrows :: "string option"
  logRequestThrows :: "string option"
  rollbackThrows :: "string option"
  throws :: "nat \<Rightarrow> string option"
  publishThrows :: "nat \<Rightarrow> string option"
  needsAuth :: bool
  needsPayments :: bool
  needsDatabase :: bool
  schemaTables :: "(string \<times> string) list"
  agentResult :: agent_result
  flyAppSuccess :: bool
  flyAppError :: string
  githubRepoUrl :: string
  blueprintRowFound :: bool
  successText :: string
  nowSeconds :: nat
  nowMillis :: string
  newRequestId :: string
  flyApiTokenSet :: bool
  flyctlExitCode :: nat
  flyctlOutput :: string

text \<open>The job as the queue delivers it: its name and the fields of \<open>job.data\<close> that are read.\<close>

record job =
  jobName :: string
  streamId :: string
  data_project_id :: string
  data_user_id :: string
  userPrompt :: string
  modificationRequest :: string
  shouldRedeploy :: bool
  credentialName :: string
  credentialValue :: string

section \<open>Awaited operations\<close>

definition tick :: "world \<Rightarrow> world" where
  "tick s = s\<lparr>steps := steps s + 1\<rparr>"

text \<open>
  An awaited call into a helper or an external system that publishes nothing on any
  stream: it throws or returns. The label names the call.
\<close>

definition await :: "pipeline_env \<Rightarrow> string \<Rightarrow> unit job_m" where
  "await env label =
     (\<lambda>s. case throws env (steps s) of
             Some e \<Rightarrow> (Inl e, tick s)
           | None \<Rightarrow> (Inr (), tick s))"

text \<open>\<open>client.query(...)\<close> on the job's client: it throws, or the statement takes effect.\<close>

definition client_query :: "pipeline_env \<Rightarrow> sql \<Rightarrow> unit job_m" where
  "client_query env q =
     (\<lambda>s. case throws env (steps s) of
             Some e \<Rightarrow> (Inl e, tick s)
           | None \<Rightarrow> (Inr (), tick (s\<lparr>control := apply_sql q (control s)\<rparr>)))"

text \<open>
  The publisher (\<open>pubsub-handlers.js\<close>, lines 24 to 104). \<open>publishToChannel\<close> awaits the
  ready barrier and \<open>publisher.publish\<close>; when that throws nothing is delivered.
\<close>

definition publishToChannel :: "pipeline_env \<Rightarrow> string \<Rightarrow> stream_message \<Rightarrow> unit job_m" where
  "publishToChannel env channel payload =
     (\<lambda>s. case publishThrows env (steps s) of
             Some e \<Rightarrow> (Inl e, tick s)
           | None \<Rightarrow> (Inr (), tick (s\<lparr>published := published s @ [(channel, payload)]\<rparr>)))"

definition publishProgress :: "pipeline_env \<Rightarrow> string \<Rightarrow> string \<Rightarrow> nat \<Rightarrow> unit job_m" where
  "publishProgress env sid msg progress = publishToChannel env sid (Progress msg progress)"

definition publishSuccess :: "pipeline_env \<Rightarrow> string \<Rightarrow> string \<Rightarrow> unit job_m" where
  "publishSuccess env sid contentText = publishToChannel env sid (Complete contentText False)"

definition publishError :: "pipeline_env \<Rightarrow> string \<Rightarrow> string \<Rightarrow> unit job_m" where
  "publishError env sid contentText = publishToChannel env sid (Complete contentText True)"

text \<open>A check on what was read: \<open>if (...) throw new Error(msg)\<close>.\<close>

definition guard :: "(world \<Rightarrow> string option) \<Rightarrow> unit job_m" where
  "guard g = (\<lambda>s. case g s of Some e \<Rightarrow> (Inl e, s) | None \<Rightarrow> (Inr (), s))"

text \<open>
  \<open>trackActivity\<close> with the caller's client (\<open>activityTracker.js\<close>): one \<open>INSERT\<close> into
  \<open>project_actions\<close>, whose failure is logged and not thrown (lines 62 to 67).
\<close>

definition trackActivity ::
  "pipeline_env \<Rightarrow> string \<Rightarrow> string \<Rightarrow> string \<Rightarrow> unit job_m" where
  "trackActivity env project request actionType =
     swallow (client_query env
       (Insert \<lparr>tbl = ''project_actions'', r_project = project, r_request = request,
                r_active = False, r_created = nowSeconds env, r_detail = actionType\<rparr>))"

section \<open>Source repository lookup (\<open>githubBranchManager.js\<close>)\<close>

definition activeRows :: "string \<Rightarrow> string \<Rightarrow> row list \<Rightarrow> row list" where
  "activeRows table project rows =
     filter (\<lambda>r. tbl r = table \<and> r_project r = project \<and> r_active r) rows"

text \<open>\<open>ORDER BY created_at DESC LIMIT 1\<close>: a row with the greatest creation time, if any.\<close>

fun newest :: "row list \<Rightarrow> row option" where
  "newest [] = None"
| "newest (r # rs) =
     (case newest rs of
        None \<Rightarrow> Some r
      | Some b \<Rightarrow> if r_created r < r_created b then Some b else Some r)"

text \<open>
  \<open>getProjectGitHubRepo\<close> (lines 3 to 19): the query, then the check that throws when no
  active row was found.
\<close>

definition noRepoMessage :: "string \<Rightarrow> string" where
  "noRepoMessage project = ''No GitHub repository found for project '' @ project"

definition getProjectGitHubRepo :: "pipeline_env \<Rightarrow> string \<Rightarrow> unit job_m" where
  "getProjectGitHubRepo env project =
     exec_all
       [client_query env (Select ''project_github_repos''),
        guard (\<lambda>s. case newest (activeRows ''project_github_repos'' project (current (control s))) of
                     None \<Rightarrow> Some (noRepoMessage project)
                   | Some r \<Rightarrow> None)]"


section \<open>Shared pieces of the handlers\<close>

text \<open>\<open>try { m } finally { f }\<close>: \<open>f\<close> runs either way, and an error thrown by \<open>f\<close> replaces the outcome.\<close>

definition try_finally :: "'a job_m \<Rightarrow> unit job_m \<Rightarrow> 'a job_m" where
  "try_finally m f =
     (\<lambda>s. case m s of
             (r, s') \<Rightarrow> (case f s' of (Inl e, s'') \<Rightarrow> (Inl e, s'') | (Inr u, s'') \<Rightarrow> (r, s'')))"

text \<open>
  \<open>provisionDaytonaContainer\<close> (\<open>daytonaService.js\<close>): \<open>daytona.create\<close> inside a \<open>try\<close> whose
  \<open>catch\<close> only logs. It writes nothing to the control database.
\<close>

definition provisionDaytonaContainer :: "pipeline_env \<Rightarrow> unit job_m" where
  "provisionDaytonaContainer env = swallow (await env ''daytona.create'')"

text \<open>
  The \<open>ROLLBACK\<close> of a handler's \<open>catch\<close> block, and the shape both handlers share:
  \<open>pool.connect()\<close> before the \<open>try\<close>; the body; on an error \<open>ROLLBACK\<close>, then
  \<open>publishError\<close> with a text built from the error's message, then \<open>throw error\<close>.
\<close>

definition rollbackInCatch :: "pipeline_env \<Rightarrow> unit job_m" where
  "rollbackInCatch env =
     (\<lambda>s. case rollbackThrows env of
             Some e \<Rightarrow> (Inl e, tick s)
           | None \<Rightarrow> (Inr (), tick (s\<lparr>control := apply_sql Rollback (control s)\<rparr>)))"

definition withClient ::
  "pipeline_env \<Rightarrow> string \<Rightarrow> (string \<Rightarrow> string) \<Rightarrow> unit job_m \<Rightarrow> unit job_m" where
  "withClient env sid errorContent body =
     (\<lambda>s. case connectThrows env of
             Some e \<Rightarrow> (Inl e, s)
           | None \<Rightarrow>
               try_catch body
                 (\<lambda>e. exec_all [rollbackInCatch env,
                                 publishError env sid (errorContent e),
                                 job_throw e]) s)"

text \<open>
  \<open>logMCPRequest\<close> of both processors: its own pooled client, one \<open>INSERT\<close> into
  \<open>mcp_requests\<close> outside any transaction (so the row stays whatever the job's client
  does later), and the generated request id.
\<close>

definition logMCPRequest :: "pipeline_env \<Rightarrow> job \<Rightarrow> string job_m" where
  "logMCPRequest env j =
     (\<lambda>s. case logRequestThrows env of
             Some e \<Rightarrow> (Inl e, tick s)
           | None \<Rightarrow>
               (Inr (newRequestId env),
                tick (s\<lparr>control :=
                   \<lparr>current = current (control s)
                      @ [\<lparr>tbl = ''mcp_requests'', r_project = data_project_id j,
                          r_request = newRequestId env, r_active = False,
                          r_created = nowSeconds env, r_detail = ''processing''\<rparr>],
                    snapshot = map_option
                      (\<lambda>rows. rows
                         @ [\<lparr>tbl = ''mcp_requests'', r_project = data_project_id j,
                             r_request = newRequestId env, r_active = False,
                             r_created = nowSeconds env, r_detail = ''processing''\<rparr>])
                      (snapshot (control s))\<rparr>\<rparr>)))"

section \<open>The modification pipeline (\<open>projectModificationExecutionHandler.js\<close>)\<close>

text \<open>
  \<open>addTablesToExistingDatabase\<close> (lines 307 to 335): the query for the project's active
  database, the check that throws when there is none, a log line, and a \<open>TODO\<close> comment
  where the queries would be executed. Nothing is sent to the cluster.
\<close>

definition addTablesToExistingDatabase ::
  "pipeline_env \<Rightarrow> string \<Rightarrow> db_query list \<Rightarrow> unit job_m" where
  "addTablesToExistingDatabase env project createTableQueries =
     exec_all
       [client_query env (Select ''project_databases''),
        guard (\<lambda>s. if activeRows ''project_databases'' project (current (control s)) = []
                   then Some ''No active database found for project'' else None)]"

definition createTableQueriesOf :: "agent_result \<Rightarrow> db_query list" where
  "createTableQueriesOf res = filter (\<lambda>q. queryType q = ''CREATE TABLE'') (result_dbQueries res)"

definition blueprintModified :: "agent_result \<Rightarrow> bool" where
  "blueprintModified res = list_ex (\<lambda>f. path f = ''api-blueprint.json'') (result_filesModified res)"

text \<open>
  The body of the \<open>try\<close> block up to the \<open>COMMIT\<close> (lines 38 to 263), statement by
  statement. Calls into the branch manager, the context loader, the agentic loop and the
  deployment service are awaited calls: none of them publishes on the stream.
  \<open>runAgenticLoop\<close> is called without \<open>maxIterations\<close>; its result is \<open>agentResult env\<close>.
\<close>

definition modificationPhases :: "pipeline_env \<Rightarrow> job \<Rightarrow> string \<Rightarrow> string \<Rightarrow> unit job_m" where
  "modificationPhases env j request sid =
     exec_all
       [client_query env Begin,
        publishProgress env sid ''Provisioning new sandbox...'' 10,
        provisionDaytonaContainer env,
        publishProgress env sid ''Sandbox provisioned'' 15,
        getProjectGitHubRepo env (data_project_id j),
        publishProgress env sid ''Repository found'' 20,
        await env ''cloneProjectFromGitHub'',
        publishProgress env sid ''Project cloned'' 25,
        await env ''createFeatureBranch'',
        publishProgress env sid (''Feature branch created: feature/modification-'' @ nowMillis env) 30,
        client_query env (Select ''project_databases''),
        await env ''loadProjectContext: find server/api'',
        publishProgress env sid ''Project context loaded'' 35,
        publishProgress env sid ''Processing modifications'' 40,
        await env ''runAgenticLoop'',
        publishProgress env sid ''Modifications complete'' 70,
        when_do (createTableQueriesOf (agentResult env) \<noteq> [])
          (exec_all
             [addTablesToExistingDatabase env (data_project_id j)
                (createTableQueriesOf (agentResult env)),
              trackActivity env (data_project_id j) request ''tables_added'']),
        await env ''commitChanges'',
        await env ''pushFeatureBranch'',
        publishProgress env sid ''Feature branch pushed'' 80,
        await env ''mergeFeatureBranch'',
        await env ''pushToMain'',
        publishProgress env sid ''Changes merged to main'' 85,
        when_do (blueprintModified (agentResult env))
          (swallow
             (exec_all
                [await env ''readFileFromContainer api-blueprint.json'',
                 await env ''JSON.parse'',
                 client_query env (Update ''api_blueprints'' (data_project_id j) ''updated''),
                 publishToChannel env sid (Typed ''apiBlueprint'')])),
        trackActivity env (data_project_id j) request ''github_push'',
        when_do (result_filesModified (agentResult env) \<noteq> [])
          (trackActivity env (data_project_id j) request
             (determineModificationType (result_filesModified (agentResult env)))),
        when_do (shouldRedeploy j)
          (exec_all
             [await env ''deployProjectToFlyIO'',
              publishProgress env sid ''Redeployment complete'' 95]),
        client_query env
          (Insert \<lparr>tbl = ''container_sessions'', r_project = data_project_id j,
                   r_request = request, r_active = False, r_created = nowSeconds env,
                   r_detail = ''completed''\<rparr>),
        client_query env Commit]"

text \<open>The whole \<open>try\<close> block: the phases, then the terminal success (line 269).\<close>

definition modificationBody :: "pipeline_env \<Rightarrow> job \<Rightarrow> string \<Rightarrow> string \<Rightarrow> unit job_m" where
  "modificationBody env j request sid =
     exec_all
       [modificationPhases env j request sid,
        publishSuccess env sid (successText env)]"

definition handleProjectModificationOrchestration ::
  "pipeline_env \<Rightarrow> job \<Rightarrow> string \<Rightarrow> string \<Rightarrow> unit job_m" where
  "handleProjectModificationOrchestration env j request sid =
     withClient env sid (\<lambda>e. ''Modification failed: '' @ e) (modificationBody env j request sid)"

text \<open>\<open>projectModificationProcessor\<close> (\<open>projectModification.js\<close>).\<close>

definition projectModificationProcessor :: "pipeline_env \<Rightarrow> job \<Rightarrow> unit job_m" where
  "projectModificationProcessor env j =
     job_bind (logMCPRequest env j)
       (\<lambda>request. handleProjectModificationOrchestration env j request (streamId j))"

section \<open>The creation pipeline (\<open>projectCreationExecutionHandler.js\<close>)\<close>

text \<open>
  \<open>provisionAndCreateTables\<close> (\<open>databaseProvisioner.js\<close>): create the database on the cluster,
  record it, then in a transaction on the new database execute each table's \<open>createQuery\<close>
  and record it; the statements reach the database at \<open>COMMIT\<close>, and on an error the inner
  \<open>catch\<close> rolls back and rethrows. The outer \<open>catch\<close> rethrows with a prefixed message.
\<close>

definition cluster_create :: "pipeline_env \<Rightarrow> string \<Rightarrow> unit job_m" where
  "cluster_create env name =
     (\<lambda>s. case throws env (steps s) of
             Some e \<Rightarrow> (Inl e, tick s)
           | None \<Rightarrow> (Inr (), tick (s\<lparr>cluster := cluster s @ [(name, [])]\<rparr>)))"

definition cluster_commit :: "pipeline_env \<Rightarrow> string \<Rightarrow> string list \<Rightarrow> unit job_m" where
  "cluster_commit env name stmts =
     (\<lambda>s. case throws env (steps s) of
             Some e \<Rightarrow> (Inl e, tick s)
           | None \<Rightarrow>
               (Inr (), tick (s\<lparr>cluster :=
                  map (\<lambda>d. if fst d = name then (fst d, snd d @ stmts) else d) (cluster s)\<rparr>)))"

definition provisionAndCreateTables ::
  "pipeline_env \<Rightarrow> string \<Rightarrow> string \<Rightarrow> unit job_m" where
  "provisionAndCreateTables env project request =
     rethrow ''Database provisioning failed: ''
       (exec_all
          [cluster_create env (provisionAndCreateTables_dbName project),
           await env ''adminConnection.end'',
           client_query env
             (Insert \<lparr>tbl = ''project_databases'', r_project = project, r_request = request,
                      r_active = True, r_created = nowSeconds env,
                      r_detail = provisionAndCreateTables_dbName project\<rparr>),
           await env ''projectDbConnection.connect'',
           try_finally
             (try_catch
                (exec_all
                   ([await env ''projectDbClient BEGIN'']
                    @ concat (map (\<lambda>t. [await env ''projectDbClient.query createQuery'',
                                        client_query env
                                          (Insert \<lparr>tbl = ''generated_queries'', r_project = project,
                                                   r_request = request, r_active = False,
                                                   r_created = nowSeconds env, r_detail = fst t\<rparr>)])
                                (schemaTables env))
                    @ [cluster_commit env (provisionAndCreateTables_dbName project)
                         (map snd (schemaTables env))]))
                (\<lambda>e. exec_all [await env ''projectDbClient ROLLBACK'', job_throw e]))
             (await env ''projectDbConnection.end''),
           swallow (trackActivity env project request ''database_created'')])"

text \<open>
  \<open>storeCredentialPlaceholders\<close> (\<open>envVarTracker.js\<close>): three inactive rows per required
  integration, inside a \<open>try\<close> whose \<open>catch\<close> only logs.
\<close>

definition storeCredentialPlaceholders :: "pipeline_env \<Rightarrow> string \<Rightarrow> string \<Rightarrow> unit job_m" where
  "storeCredentialPlaceholders env project request =
     swallow
       (exec_all
          (map (\<lambda>name. client_query env
                  (Insert \<lparr>tbl = ''cloud_credentials'', r_project = project, r_request = request,
                           r_active = False, r_created = nowSeconds env, r_detail = name\<rparr>))
             ((if needsAuth env
               then [''CLERK_SECRET_KEY'', ''CLERK_PUBLISHABLE_KEY'', ''CLERK_WEBHOOK_SECRET'']
               else [])
              @ (if needsPayments env
                 then [''STRIPE_SECRET_KEY'', ''STRIPE_PUBLISHABLE_KEY'', ''STRIPE_WEBHOOK_SECRET'']
                 else []))))"

definition routeFilesOf :: "agent_result \<Rightarrow> file_entry list" where
  "routeFilesOf res =
     filter (\<lambda>f. str_includes (path f) ''/api/'' \<and> endsWith (path f) ''.js'') (result_filesModified res)"

text \<open>
  The body of the \<open>try\<close> block up to and including the publication of the stored
  blueprint (lines 33 to 369).
\<close>

definition creationPhases :: "pipeline_env \<Rightarrow> job \<Rightarrow> string \<Rightarrow> string \<Rightarrow> unit job_m" where
  "creationPhases env j request sid =
     exec_all
       [client_query env Begin,
        publishProgress env sid ''Starting execution...'' 10,
        swallow (await env ''detectAuthenticationNeed''),
        when_do (needsAuth env)
          (publishProgress env sid ''Authentication required - Clerk will be configured'' 8),
        swallow (await env ''detectPaymentNeed''),
        when_do (needsPayments env)
          (publishProgress env sid ''Payment processing required - Stripe will be configured'' 9),
        swallow (await env ''detectDatabaseNeed''),
        when_do (needsDatabase env)
          (exec_all
             [publishProgress env sid ''Database required - designing schema...'' 12,
              await env ''designDatabaseSchema'',
              publishProgress env sid ''Provisioning database...'' 15,
              provisionAndCreateTables env (data_project_id j) request,
              publishProgress env sid
                (''Database provisioned: '' @ provisionAndCreateTables_dbName (data_project_id j)) 18]),
        await env ''getOrProvisionContainer'',
        publishProgress env sid ''Container provisioned'' 20,
        when_do (needsAuth env \<or> needsPayments env)
          (exec_all
             [publishProgress env sid ''Loading integration specifications...'' 25,
              await env ''fetchIntegrationSpecs'',
              publishProgress env sid ''Integration specs loaded'' 28]),
        swallow
          (exec_all
             [client_query env (Select ''container_sessions''),
              trackActivity env (data_project_id j) request ''project_created'']),
        publishProgress env sid ''Starting agentic loop'' 30,
        await env ''runAgenticLoop'',
        publishProgress env sid ''Agentic loop complete'' 70,
        await env ''injectCorsMiddleware'',
        publishProgress env sid ''CORS configured'' 72,
        when_do (needsDatabase env)
          (exec_all
             [await env ''git add server/utils/db.js'',
              await env ''git commit'',
              publishProgress env sid ''Database connection file committed'' 73]),
        await env ''injectGitHubActionsWorkflow'',
        publishProgress env sid ''GitHub Actions configured'' 74,
        await env ''createFlyToml'',
        publishProgress env sid ''Deployment files created'' 76,
        await env ''install flyctl'',
        publishProgress env sid ''flyctl installed'' 77,
        await env ''createFlyApp'',
        guard (\<lambda>s. if flyAppSuccess env then None
                   else Some (''Failed to create Fly.io app: ''
                              @ (if flyAppError env = [] then ''Unknown error'' else flyAppError env))),
        publishProgress env sid ''Fly.io app created'' 78,
        when_do (needsDatabase env)
          (exec_all
             [await env ''flyctl secrets set'',
              publishProgress env sid ''Database secrets configured in Fly.io'' 79]),
        client_query env
          (Insert \<lparr>tbl = ''project_deployments'', r_project = data_project_id j,
                   r_request = request, r_active = False, r_created = nowSeconds env,
                   r_detail = appName (data_project_id j)\<rparr>),
        when_do (result_filesModified (agentResult env) \<noteq> [])
          (swallow
             (when_do (routeFilesOf (agentResult env) \<noteq> [])
                (trackActivity env (data_project_id j) request ''endpoints_added''))),
        when_do (result_filesModified (agentResult env) \<noteq> [])
          (exec_all
             [await env ''git add'',
              await env ''git commit'',
              await env ''pushToGitHubDeterministic'',
              publishProgress env sid ''Code pushed to GitHub'' 80,
              swallow (await env ''setGitHubSecret''),
              await env ''syncProjectToS3'',
              publishProgress env sid ''Files uploaded to S3'' 90]),
        when_do (result_apiBlueprint (agentResult env) \<noteq> None)
          (exec_all
             [await env ''writeFileInContainer api-blueprint.json'',
              await env ''git add api-blueprint.json'',
              await env ''git commit'',
              client_query env
                (Insert \<lparr>tbl = ''api_blueprints'', r_project = data_project_id j,
                         r_request = request, r_active = False, r_created = nowSeconds env,
                         r_detail = ''blueprint''\<rparr>)]),
        when_do (needsAuth env \<or> needsPayments env)
          (exec_all
             [swallow (client_query env
                (Insert \<lparr>tbl = ''project_actions'', r_project = data_project_id j,
                         r_request = request, r_active = False, r_created = nowSeconds env,
                         r_detail = ''env_vars_required''\<rparr>)),
              storeCredentialPlaceholders env (data_project_id j) request]),
        client_query env Commit,
        when_do (result_apiBlueprint (agentResult env) \<noteq> None)
          (exec_all
             [client_query env (Select ''api_blueprints''),
              when_do (blueprintRowFound env) (publishToChannel env sid (Typed ''apiBlueprint''))])]"

text \<open>
  The rest of the \<open>try\<close> block: the terminal success (line 411) and, after it, the
  notification that deployment was triggered (lines 456 to 467).
\<close>

definition creationBody :: "pipeline_env \<Rightarrow> job \<Rightarrow> string \<Rightarrow> string \<Rightarrow> unit job_m" where
  "creationBody env j request sid =
     exec_all
       [creationPhases env j request sid,
        publishSuccess env sid (successText env),
        when_do (result_filesModified (agentResult env) \<noteq> [])
          (publishToChannel env sid (Typed ''deployment_triggered''))]"

definition handleProjectCreationOrchestration ::
  "pipeline_env \<Rightarrow> job \<Rightarrow> string \<Rightarrow> string \<Rightarrow> unit job_m" where
  "handleProjectCreationOrchestration env j request sid =
     withClient env sid
       (\<lambda>e. ''Execution failed: '' @ (if e = [] then ''Unknown error'' else e))
       (creationBody env j request sid)"

text \<open>\<open>initialProjectCreationProcessor\<close> (\<open>initialProjectCreation.js\<close>).\<close>

definition initialProjectCreationProcessor :: "pipeline_env \<Rightarrow> job \<Rightarrow> unit job_m" where
  "initialProjectCreationProcessor env j =
     job_bind (logMCPRequest env j)
       (\<lambda>request. handleProjectCreationOrchestration env j request (streamId j))"


section \<open>The secret-sync job (\<open>flyioSecretsHandler.js\<close>, \<open>flyioSecretsSyncProcessor.js\<close>)\<close>

text \<open>
  The \<open>catch\<close> block of \<open>syncCredentialsToFlyio\<close> (lines 103 to 125): record the failure,
  return \<open>{success: false, error}\<close>. The result object is a pair of \<open>success\<close> and \<open>error\<close>.
\<close>

definition syncFailed :: "pipeline_env \<Rightarrow> job \<Rightarrow> string \<Rightarrow> (bool \<times> string) job_m" where
  "syncFailed env j e =
     job_bind
       (client_query env
          (Insert \<lparr>tbl = ''project_actions'', r_project = data_project_id j, r_request = [],
                   r_active = False, r_created = nowSeconds env,
                   r_detail = ''flyio-secret-sync failed''\<rparr>))
       (\<lambda>u. job_return (False, e))"

definition deployedRows :: "string \<Rightarrow> row list \<Rightarrow> row list" where
  "deployedRows project rows =
     filter (\<lambda>r. tbl r = ''project_deployments'' \<and> r_project r = project \<and> r_detail r = ''deployed'')
       rows"

text \<open>
  \<open>syncCredentialsToFlyio\<close> (lines 12 to 143): look up the deployed app and return a
  failure result when there is none; otherwise provision a sandbox, install the CLI, set
  the secret, record the success; the sandbox is stopped in the \<open>finally\<close> block, inside
  a \<open>try\<close> of its own. No publisher function is imported or called.
\<close>

definition syncCredentialsToFlyio :: "pipeline_env \<Rightarrow> job \<Rightarrow> (bool \<times> string) job_m" where
  "syncCredentialsToFlyio env j =
     (\<lambda>s. case client_query env (Select ''project_deployments'') s of
             (Inl e, s1) \<Rightarrow> syncFailed env j e s1
           | (Inr u, s1) \<Rightarrow>
               if deployedRows (data_project_id j) (current (control s1)) = []
               then (Inr (False, ''No Fly.io deployment found for this project''), s1)
               else
                 try_finally
                   (try_catch
                      (job_bind
                         (exec_all
                            [provisionDaytonaContainer env,
                             await env ''install flyctl'',
                             guard (\<lambda>s. if flyApiTokenSet env then None
                                        else Some ''FLY_API_TOKEN not found in environment variables''),
                             await env ''flyctl secrets set'',
                             guard (\<lambda>s. if flyctlExitCode env = 0 then None
                                        else Some (''flyctl command failed: '' @ flyctlOutput env)),
                             client_query env
                               (Insert \<lparr>tbl = ''project_actions'', r_project = data_project_id j,
                                        r_request = [], r_active = False,
                                        r_created = nowSeconds env,
                                        r_detail = ''flyio-secret-sync success''\<rparr>)])
                         (\<lambda>u. job_return (True, [])))
                      (syncFailed env j))
                   (swallow (await env ''stopDaytonaContainer'')) s1)"

text \<open>
  \<open>flyioSecretsSyncProcessor\<close> (lines 7 to 47). The job's data holds \<open>projectId\<close>,
  \<open>credentialName\<close> and \<open>credentialValue\<close>; no stream id is read.
\<close>

definition flyioSecretsSyncProcessor :: "pipeline_env \<Rightarrow> job \<Rightarrow> unit job_m" where
  "flyioSecretsSyncProcessor env j =
     (\<lambda>s. case connectThrows env of
             Some e \<Rightarrow> (Inl e, s)
           | None \<Rightarrow>
               try_catch
                 (job_bind (client_query env Begin)
                    (\<lambda>u. job_bind (syncCredentialsToFlyio env j)
                       (\<lambda>result.
                          if fst result then client_query env Commit
                          else exec_all [client_query env Rollback, job_throw (snd result)])))
                 (\<lambda>e. exec_all [rollbackInCatch env, job_throw e]) s)"

section \<open>The dispatcher (\<open>worker/index.js\<close>, \<open>processorFunctions.js\<close>)\<close>

text \<open>The registry of processors by job name, and the worker's routing (lines 32 to 39).\<close>

definition getProcessor :: "string \<Rightarrow> (pipeline_env \<Rightarrow> job \<Rightarrow> unit job_m) option" where
  "getProcessor name =
     (if name = ''initialProjectCreationJob'' then Some initialProjectCreationProcessor
      else if name = ''projectModificationJob'' then Some projectModificationProcessor
      else if name = ''sync-flyio-secrets'' then Some flyioSecretsSyncProcessor
      else None)"

definition workerProcess :: "pipeline_env \<Rightarrow> job \<Rightarrow> unit job_m" where
  "workerProcess env j =
     (case getProcessor (jobName j) of
        None \<Rightarrow> job_throw (''No processor registered for job '' @ [CHR 0x22] @ jobName j @ [CHR 0x22])
      | Some processor \<Rightarrow> processor env j)"


section \<open>Concrete jobs and environments\<close>

text \<open>
  An environment in which nothing throws, with the detectors' decisions and the agent's
  result as parameters; and a world in which project \<open>p5\<close> has an active repository, an
  active database (with one table) and a deployed app.
\<close>

definition demo_agent_result :: "file_entry list \<Rightarrow> db_query list \<Rightarrow> agent_result" where
  "demo_agent_result files queries =
     \<lparr>success = True, iterations = 1, result_filesModified = files, result_dbQueries = queries,
      result_summary = ''Task completed successfully'', result_conversationHistory = [],
      totalCost = 0, result_apiBlueprint = None\<rparr>"

definition demo_pipeline_env :: "bool \<Rightarrow> agent_result \<Rightarrow> pipeline_env" where
  "demo_pipeline_env auth res =
     \<lparr>connectThrows = None, logRequestThrows = None, rollbackThrows = None,
      throws = (\<lambda>k. None), publishThrows = (\<lambda>k. None),
      needsAuth = auth, needsPayments = False, needsDatabase = False, schemaTables = [],
      agentResult = res, flyAppSuccess = True, flyAppError = [],
      githubRepoUrl = ''https://github.com/SaaSManDan/turbobackend-p5'',
      blueprintRowFound = True, successText = ''Done'',
      nowSeconds = 1700000000, nowMillis = ''1700000000000'', newRequestId = ''r1'',
      flyApiTokenSet = True, flyctlExitCode = 0, flyctlOutput = []\<rparr>"

definition demo_job :: "string \<Rightarrow> string \<Rightarrow> job" where
  "demo_job name project =
     \<lparr>jobName = name, streamId = ''s1'', data_project_id = project, data_user_id = ''u1'',
      userPrompt = ''blog with user login'', modificationRequest = ''add a comments table'',
      shouldRedeploy = False, credentialName = ''CLERK_SECRET_KEY'', credentialValue = ''sk_test''\<rparr>"

definition demo_world :: world where
  "demo_world =
     \<lparr>published = [],
      control =
        \<lparr>current =
           [\<lparr>tbl = ''project_github_repos'', r_project = ''p5'', r_request = ''r0'', r_active = True,
             r_created = 1690000000, r_detail = ''https://github.com/SaaSManDan/turbobackend-p5''\<rparr>,
            \<lparr>tbl = ''project_databases'', r_project = ''p5'', r_request = ''r0'', r_active = True,
             r_created = 1690000000, r_detail = ''turbobackend_proj_p5''\<rparr>,
            \<lparr>tbl = ''project_deployments'', r_project = ''p5'', r_request = ''r0'', r_active = False,
             r_created = 1690000000, r_detail = ''deployed''\<rparr>],
         snapshot = None\<rparr>,
      cluster = [(''turbobackend_proj_p5'', [''CREATE TABLE users (id text)''])],
      steps = 0\<rparr>"

text \<open>A \<open>db_query\<close> entry of type CREATE TABLE, as the loop records it.\<close>

definition demo_create_table_query :: db_query where
  "demo_create_table_query =
     \<lparr>query = ''CREATE TABLE comments (id text)'', schemaName = ''comments'',
      queryType = ''CREATE TABLE''\<rparr>"

section \<open>Code that leaves a part of the world alone\<close>

text \<open>
  \<open>preserves f m\<close>: running \<open>m\<close>, whatever its outcome, does not change the view \<open>f\<close> of the
  world. The views used are the terminal messages on a stream, everything published,
  and the project databases on the cluster. \<open>bookkeeping f\<close> says that \<open>f\<close> does not look at
  the operation count or at the control database, \<open>unpublished f\<close> that it does not look at
  what is published, and \<open>offcluster f\<close> that it does not look at the cluster.
\<close>

definition preserves :: "(world \<Rightarrow> 'b) \<Rightarrow> 'a job_m \<Rightarrow> bool" where
  "preserves f m = (\<forall>s. f (snd (m s)) = f s)"

definition bookkeeping :: "(world \<Rightarrow> 'b) \<Rightarrow> bool" where
  "bookkeeping f = (\<forall>s n c. f (s\<lparr>steps := n\<rparr>) = f s \<and> f (s\<lparr>control := c\<rparr>) = f s)"

definition unpublished :: "(world \<Rightarrow> 'b) \<Rightarrow> bool" where
  "unpublished f = (\<forall>s p. f (s\<lparr>published := p\<rparr>) = f s)"

definition offcluster :: "(world \<Rightarrow> 'b) \<Rightarrow> bool" where
  "offcluster f = (\<forall>s c. f (s\<lparr>cluster := c\<rparr>) = f s)"

section \<open>Concrete runs of the agentic loop\<close>

text \<open>
  Two well-formed agent responses and the JSON text of each, for evaluating the loop:
  one that only declares the task complete, and one that also writes a new route file.
\<close>

definition json_done :: string where
  "json_done = ''{\"reasoning\":\"done\",\"commands\":[],\"taskComplete\":true,\"summary\":\"ok\"}''"

definition response_done :: agent_response where
  "response_done =
     \<lparr>reasoning = ''done'', commands = Some [], taskComplete = True, summary = ''ok'',
      apiBlueprint = None\<rparr>"

definition json_write_route :: string where
  "json_write_route = ''{\"reasoning\":\"add route\",\"commands\":[{\"type\":\"write\",\"path\":\"server/api/users/[id].get.js\",\"content\":\"export default defineEventHandler(() => ({}))\"}],\"taskComplete\":true,\"summary\":\"added GET /api/users/[id]\"}''"

definition response_write_route :: agent_response where
  "response_write_route =
     \<lparr>reasoning = ''add route'',
      commands = Some [Write ''server/api/users/[id].get.js''
                         ''export default defineEventHandler(() => ({}))''],
      taskComplete = True, summary = ''added GET /api/users/[id]'', apiBlueprint = None\<rparr>"

text \<open>\<open>JSON.parse\<close> on the texts used here: the two documents parse, anything else throws.\<close>

definition demo_JSON_parse :: "string \<Rightarrow> agent_response option" where
  "demo_JSON_parse t =
     (if t = json_done then Some response_done
      else if t = json_write_route then Some response_write_route
      else None)"

text \<open>
  An environment is fixed by the reply of each LLM call and by the outcome of the cost
  row's \<open>INSERT\<close>; the sandbox is \<open>demo_sandbox\<close>.
\<close>

definition demo_env ::
  "(nat \<Rightarrow> llm_result) \<Rightarrow> string option \<Rightarrow> (string \<times> string) list agent_env" where
  "demo_env replies insertOutcome =
     \<lparr>callLLMNonStream = (\<lambda>k history. Inr (replies k)),
      JSON_parse = demo_JSON_parse,
      JSON_stringify = (\<lambda>rs. ''[...]''),
      sandbox = demo_sandbox,
      pool_query = (\<lambda>row. insertOutcome)\<rparr>"

definition demo_params :: "enat \<Rightarrow> loop_params" where
  "demo_params cap =
     \<lparr>arg_containerId = ''c1'', arg_projectId = ''p5'', arg_userId = ''u1'',
      arg_userRequest = ''add GET /api/users/[id]'', arg_requestId = ''r1'',
      arg_systemPrompt = ''You are an agent.'', arg_maxIterations = cap\<rparr>"

text \<open>
  The first reply is not JSON (and has no control character for the sanitizer to fix)
  and uses 100 input and 50 output tokens; the second is \<open>json_done\<close> with 10 and 5.
\<close>

definition replies_invalid_then_done :: "nat \<Rightarrow> llm_result" where
  "replies_invalid_then_done k =
     (if k = 1 then \<lparr>llm_text = ''Sure! Here is what I will do.'', inputTokens = 100, outputTokens = 50\<rparr>
      else \<lparr>llm_text = json_done, inputTokens = 10, outputTokens = 5\<rparr>)"

definition replies_done :: "nat \<Rightarrow> llm_result" where
  "replies_done k = \<lparr>llm_text = json_done, inputTokens = 10, outputTokens = 5\<rparr>"

definition replies_write_route :: "nat \<Rightarrow> llm_result" where
  "replies_write_route k = \<lparr>llm_text = json_write_route, inputTokens = 10, outputTokens = 5\<rparr>"


section \<open>Facts about the derived names\<close>

lemma toLowerCase_char_hyphen_iff: "toLowerCase_char c = CHR ''-'' \<longleftrightarrow> c = CHR ''-''"
proof
  assume h: "toLowerCase_char c = CHR ''-''"
  show "c = CHR ''-''"
  proof (cases "65 \<le> (of_char c :: nat) \<and> (of_char c :: nat) \<le> 90")
    case True
    then have "toLowerCase_char c = char_of ((of_char c :: nat) + 32)"
      by (simp add: toLowerCase_char_def)
    with h have "(of_char (char_of ((of_char c :: nat) + 32) :: char) :: nat) = of_char (CHR ''-'')"
      by simp
    with True show ?thesis by simp
  next
    case False
    with h show ?thesis by (simp add: toLowerCase_char_def)
  qed
next
  assume "c = CHR ''-''"
  then show "toLowerCase_char c = CHR ''-''" by (simp add: toLowerCase_char_def)
qed

lemma toLowerCase_char_underscore: "toLowerCase_char (CHR ''_'') = CHR ''_''"
  by (simp add: toLowerCase_char_def)

lemma toLowerCase_replace_hyphens:
  "toLowerCase (replace_hyphens s) = replace_hyphens (toLowerCase s)"
  by (induction s)
     (simp_all add: toLowerCase_def replace_hyphens_def toLowerCase_char_hyphen_iff
        toLowerCase_char_underscore)

lemma toLowerCase_append: "toLowerCase (a @ b) = toLowerCase a @ toLowerCase b"
  by (simp add: toLowerCase_def)

lemma toLowerCase_db_prefix: "toLowerCase ''turbobackend_proj_'' = ''turbobackend_proj_''"
  by (simp add: toLowerCase_def toLowerCase_char_def)

lemma toLowerCase_app_prefix: "toLowerCase ''turbobackend-'' = ''turbobackend-''"
  by (simp add: toLowerCase_def toLowerCase_char_def)

lemma provisionAndCreateTables_dbName_spec:
  "provisionAndCreateTables_dbName projectId = spec_dbName projectId"
  unfolding provisionAndCreateTables_dbName_def spec_dbName_def toLowerCase_append
    toLowerCase_db_prefix toLowerCase_replace_hyphens ..

lemma appName_spec: "appName projectId = spec_appName projectId"
  unfolding appName_def spec_appName_def toLowerCase_append toLowerCase_app_prefix ..

section \<open>Facts about the command executor\<close>

lemma executeAgentCommands_Cons:
  "executeAgentCommands sdk cid (c # cs) s =
     (result_entry c (fst (run_command sdk cid c s))
        # fst (executeAgentCommands sdk cid cs (snd (run_command sdk cid c s))),
      snd (executeAgentCommands sdk cid cs (snd (run_command sdk cid c s))))"
  by (simp split: prod.splits)

text \<open>
  A batch is its commands run one after another: the second part of a batch runs in the
  state the first part leaves, whatever the first part's outcomes were.
\<close>

lemma executeAgentCommands_append:
  "executeAgentCommands sdk cid (xs @ ys) s =
     (fst (executeAgentCommands sdk cid xs s)
        @ fst (executeAgentCommands sdk cid ys (snd (executeAgentCommands sdk cid xs s))),
      snd (executeAgentCommands sdk cid ys (snd (executeAgentCommands sdk cid xs s))))"
  by (induction xs arbitrary: s)
     (simp_all add: executeAgentCommands_Cons del: executeAgentCommands.simps(2))

lemma length_executeAgentCommands:
  "length (fst (executeAgentCommands sdk cid cmds s)) = length cmds"
  by (induction cmds arbitrary: s)
     (simp_all add: executeAgentCommands_Cons del: executeAgentCommands.simps(2))

lemma exec_command_result_entry: "exec_command (result_entry c r) = c"
  by (simp add: result_entry_def split: sum.splits)

lemma map_exec_command_executeAgentCommands:
  "map exec_command (fst (executeAgentCommands sdk cid cmds s)) = cmds"
  by (induction cmds arbitrary: s)
     (simp_all add: executeAgentCommands_Cons exec_command_result_entry
        del: executeAgentCommands.simps(2))

lemma executeAgentCommands_nth:
  "i < length cmds \<Longrightarrow>
   fst (executeAgentCommands sdk cid cmds s) ! i =
     result_entry (cmds ! i) (fst (run_command sdk cid (cmds ! i) (state_before sdk cid cmds s i)))"
proof (induction cmds arbitrary: s i)
  case Nil
  then show ?case by simp
next
  case (Cons c cs)
  show ?case
  proof (cases i)
    case 0
    then show ?thesis
      by (simp add: state_before_def executeAgentCommands_Cons del: executeAgentCommands.simps(2))
  next
    case (Suc j)
    with Cons.prems have j: "j < length cs" by simp
    have sb: "state_before sdk cid (c # cs) s (Suc j)
                = state_before sdk cid cs (snd (run_command sdk cid c s)) j"
      by (simp add: state_before_def executeAgentCommands_Cons del: executeAgentCommands.simps(2))
    from Cons.IH[OF j, of "snd (run_command sdk cid c s)"] show ?thesis
      using Suc sb
      by (simp add: executeAgentCommands_Cons del: executeAgentCommands.simps(2))
  qed
qed

text \<open>
  For every batch of commands, every sandbox and every starting state: the result list
  has one entry per command, the entries carry the commands in declared order, and the
  entry at each position \<open>i\<close> reports the outcome of the \<open>switch\<close> for command \<open>i\<close> in the
  state left by the commands before it (\<open>state_before\<close>): \<open>{success: false, error}\<close> when the
  \<open>switch\<close> throws, \<open>{success: true, result}\<close> when it returns. No outcome at one position
  removes or changes the attempt of a later command.
\<close>

lemma executeAgentCommands_parallel_results:
  "length (fst (executeAgentCommands sdk cid cmds s)) = length cmds
   \<and> map exec_command (fst (executeAgentCommands sdk cid cmds s)) = cmds
   \<and> (\<forall>i < length cmds.
        (case fst (run_command sdk cid (cmds ! i) (state_before sdk cid cmds s i)) of
           Inl e \<Rightarrow> fst (executeAgentCommands sdk cid cmds s) ! i =
                      \<lparr>exec_command = cmds ! i, exec_success = False, exec_value = None,
                       exec_error = Some e\<rparr>
         | Inr v \<Rightarrow> fst (executeAgentCommands sdk cid cmds s) ! i =
                      \<lparr>exec_command = cmds ! i, exec_success = True, exec_value = Some v,
                       exec_error = None\<rparr>))"
proof (intro conjI allI impI)
  show "length (fst (executeAgentCommands sdk cid cmds s)) = length cmds"
    by (rule length_executeAgentCommands)
  show "map exec_command (fst (executeAgentCommands sdk cid cmds s)) = cmds"
    by (rule map_exec_command_executeAgentCommands)
next
  fix i assume "i < length cmds"
  then show "case fst (run_command sdk cid (cmds ! i) (state_before sdk cid cmds s i)) of
           Inl e \<Rightarrow> fst (executeAgentCommands sdk cid cmds s) ! i =
                      \<lparr>exec_command = cmds ! i, exec_success = False, exec_value = None,
                       exec_error = Some e\<rparr>
         | Inr v \<Rightarrow> fst (executeAgentCommands sdk cid cmds s) ! i =
                      \<lparr>exec_command = cmds ! i, exec_success = True, exec_value = Some v,
                       exec_error = None\<rparr>"
    by (simp add: executeAgentCommands_nth result_entry_def split: sum.splits)
qed

text \<open>
  An execute, write or read whose SDK call throws makes the \<open>switch\<close> throw, with that
  error. A delete never does: whatever the sandbox, the \<open>switch\<close> returns for it, so its
  entry always says \<open>success: true\<close>, and with the result \<open>undefined\<close> when the delete failed.
\<close>

lemma run_command_Read_fails:
  "getUserHomeDir sdk cid s = Inr dir \<Longrightarrow>
   fst (fs_downloadFile sdk (dir @ ''/'' @ p) s) = Inl e \<Longrightarrow>
   fst (run_command sdk cid (Read p) s) = Inl e"
  by (cases "fs_downloadFile sdk (dir @ ''/'' @ p) s") (simp add: readFileFromContainer_def)

lemma run_command_Write_fails:
  "getUserHomeDir sdk cid s = Inr dir \<Longrightarrow>
   fst (fs_uploadFile sdk c (dir @ ''/'' @ p) s) = Inl e \<Longrightarrow>
   fst (run_command sdk cid (Write p c) s) = Inl e"
  by (cases "fs_uploadFile sdk c (dir @ ''/'' @ p) s") (simp add: writeFileInContainer_def)

lemma run_command_Execute_fails:
  "getUserHomeDir sdk cid s = Inr dir \<Longrightarrow>
   fst (process_executeCommand sdk c dir s) = Inl e \<Longrightarrow>
   fst (run_command sdk cid (Execute c) s) = Inl e"
  by (cases "process_executeCommand sdk c dir s") (simp add: executeCommandInContainer_def)

lemma run_command_Delete_fails:
  "getUserHomeDir sdk cid s = Inr dir \<Longrightarrow>
   fst (fs_delete sdk (dir @ ''/'' @ p) s) = Inl e \<Longrightarrow>
   fst (run_command sdk cid (Delete p) s) = Inr Undefined"
  by (cases "fs_delete sdk (dir @ ''/'' @ p) s") (simp add: deleteFileInContainer_def)

lemma run_command_Delete_never_throws:
  "\<not> isl (fst (run_command sdk cid (Delete p) s))"
  by (cases "deleteFileInContainer sdk cid p s") simp

lemma delete_entry_always_success:
  "exec_success (result_entry (Delete p) (fst (run_command sdk cid (Delete p) s)))"
  by (cases "deleteFileInContainer sdk cid p s") (simp add: result_entry_def)

text \<open>
  Claim C9. A failing command is claimed to contribute \<open>{success: false, error}\<close> at its
  position. Commands are attempted in order and none aborts the batch
  (\<open>executeAgentCommands_parallel_results\<close>), and a failing execute, write or read is
  reported so, but a failing delete is not. In the batch \<open>delete missing.txt\<close>,
  \<open>read missing.txt\<close> on a sandbox without that file, both SDK calls throw
  \<open>File not found\<close>; the entry of the read is \<open>{success: false, error: File not found}\<close> and
  the entry of the delete is \<open>{success: true, result: undefined}\<close>.
\<close>

theorem C9_failed_delete_reported_as_success:
  "fst (fs_delete demo_sandbox ''/home/daytona/missing.txt'' []) = Inl ''File not found''
   \<and> fst (fs_downloadFile demo_sandbox ''/home/daytona/missing.txt'' []) = Inl ''File not found''
   \<and> fst (executeAgentCommands demo_sandbox ''c1''
             [Delete ''missing.txt'', Read ''missing.txt''] [])
       = [\<lparr>exec_command = Delete ''missing.txt'', exec_success = True,
           exec_value = Some Undefined, exec_error = None\<rparr>,
          \<lparr>exec_command = Read ''missing.txt'', exec_success = False,
           exec_value = None, exec_error = Some ''File not found''\<rparr>]"
  by (simp add: demo_sandbox_def result_entry_def deleteFileInContainer_def
      readFileFromContainer_def)

section \<open>Facts about the agentic loop\<close>

lemma iteration_processResponse:
  "iteration (processResponse env cid result agentResponse st) = iteration st"
  by (simp add: processResponse_def Let_def split: prod.splits)

text \<open>The ways through one iteration, as conditional equations for evaluating a run.\<close>

lemma agenticLoop_exit:
  "\<not> enat (iteration st) < cap \<Longrightarrow> agenticLoop env cid cap st = Some (Inr st)"
  by (subst agenticLoop.simps) simp

lemma agenticLoop_throw:
  "enat (iteration st) < cap \<Longrightarrow>
   callLLMNonStream env (iteration st + 1) (conversationHistory st) = Inl e \<Longrightarrow>
   agenticLoop env cid cap st = Some (Inl e)"
  by (subst agenticLoop.simps) simp

lemma agenticLoop_invalid:
  "enat (iteration st) < cap \<Longrightarrow>
   callLLMNonStream env (iteration st + 1) (conversationHistory st) = Inr result \<Longrightarrow>
   JSON_parse env (llm_text result) = None \<Longrightarrow>
   JSON_parse env (sanitize (llm_text result)) = None \<Longrightarrow>
   agenticLoop env cid cap st =
     agenticLoop env cid cap
       (st\<lparr>iteration := iteration st + 1,
           conversationHistory := conversationHistory st
             @ [\<lparr>role = ''user'', content = invalidJsonNotice\<rparr>]\<rparr>)"
  by (subst agenticLoop.simps) simp

lemma agenticLoop_complete:
  "enat (iteration st) < cap \<Longrightarrow>
   callLLMNonStream env (iteration st + 1) (conversationHistory st) = Inr result \<Longrightarrow>
   JSON_parse env (llm_text result) = Some agentResponse \<Longrightarrow>
   taskComplete agentResponse \<Longrightarrow>
   agenticLoop env cid cap st =
     Some (Inr (processResponse env cid result agentResponse (st\<lparr>iteration := iteration st + 1\<rparr>)))"
  by (subst agenticLoop.simps) simp

lemma agenticLoop_continue:
  "enat (iteration st) < cap \<Longrightarrow>
   callLLMNonStream env (iteration st + 1) (conversationHistory st) = Inr result \<Longrightarrow>
   JSON_parse env (llm_text result) = Some agentResponse \<Longrightarrow>
   \<not> taskComplete agentResponse \<Longrightarrow>
   agenticLoop env cid cap st =
     agenticLoop env cid cap
       (processResponse env cid result agentResponse (st\<lparr>iteration := iteration st + 1\<rparr>))"
  by (subst agenticLoop.simps) simp

lemma demo_env_sel:
  "callLLMNonStream (demo_env replies outcome) = (\<lambda>k history. Inr (replies k))"
  "JSON_parse (demo_env replies outcome) = demo_JSON_parse"
  "sandbox (demo_env replies outcome) = demo_sandbox"
  "pool_query (demo_env replies outcome) = (\<lambda>row. outcome)"
  by (simp_all add: demo_env_def)

lemma initialState_sel:
  "iteration (initialState params sbx) = 0"
  "filesModified (initialState params sbx) = []"
  "dbQueries (initialState params sbx) = []"
  "totalInputTokens (initialState params sbx) = 0"
  "totalOutputTokens (initialState params sbx) = 0"
  "sandboxState (initialState params sbx) = sbx"
  by (simp_all add: initialState_def)

text \<open>With a finite cap the loop always ends, whatever the LLM and the sandbox do.\<close>

lemma agenticLoop_terminates:
  "\<exists>r. agenticLoop env cid (enat n) st = Some r"
proof (induction "n - iteration st" arbitrary: st)
  case 0
  then have "\<not> enat (iteration st) < enat n" by simp
  then show ?case by (subst agenticLoop.simps) simp
next
  case (Suc d)
  then have lt: "enat (iteration st) < enat n" by simp
  have next_run: "\<exists>r. agenticLoop env cid (enat n) st' = Some r"
    if "iteration st' = iteration st + 1" for st'
    using Suc that by (intro Suc.hyps(1)) simp
  show ?case
  proof (cases "callLLMNonStream env (iteration st + 1) (conversationHistory st)")
    case (Inl e)
    with lt show ?thesis by (subst agenticLoop.simps) simp
  next
    case (Inr result)
    show ?thesis
    proof (cases "case JSON_parse env (llm_text result) of Some r \<Rightarrow> Some r
                  | None \<Rightarrow> JSON_parse env (sanitize (llm_text result))")
      case None
      have "\<exists>r. agenticLoop env cid (enat n)
              (st\<lparr>iteration := iteration st + 1,
                  conversationHistory := conversationHistory st
                    @ [\<lparr>role = ''user'', content = invalidJsonNotice\<rparr>]\<rparr>) = Some r"
        by (rule next_run) simp
      with lt Inr None show ?thesis by (subst agenticLoop.simps) simp
    next
      case (Some agentResponse)
      have "\<exists>r. agenticLoop env cid (enat n)
              (processResponse env cid result agentResponse (st\<lparr>iteration := iteration st + 1\<rparr>))
              = Some r"
        by (rule next_run) (simp add: iteration_processResponse)
      with lt Inr Some show ?thesis by (subst agenticLoop.simps) simp
    qed
  qed
qed

text \<open>
  An invariant rule for the loop: a property of the loop variables that holds at entry
  and is kept by both ways through the body holds when the loop is left.
\<close>

lemma agenticLoop_invariant:
  assumes run: "agenticLoop env cid cap st = Some (Inr st')"
    and init: "I st"
    and notice: "\<And>u. I u \<Longrightarrow>
        I (u\<lparr>iteration := iteration u + 1,
             conversationHistory := conversationHistory u
               @ [\<lparr>role = ''user'', content = invalidJsonNotice\<rparr>]\<rparr>)"
    and step: "\<And>u result resp. I u \<Longrightarrow>
        I (processResponse env cid result resp (u\<lparr>iteration := iteration u + 1\<rparr>))"
  shows "I st'"
proof -
  let ?post = "\<lambda>r :: string + 'a loop_state. case r of Inl e \<Rightarrow> True | Inr u \<Rightarrow> I u"
  have "(e = env \<and> c = cid \<and> I st) \<longrightarrow> ?post r"
    if "agenticLoop e c cap st = Some r" for e c r
  proof (rule agenticLoop.raw_induct
      [where P = "\<lambda>e c cap st r. (e = env \<and> c = cid \<and> I st) \<longrightarrow> ?post r", OF _ that])
    fix loop :: "'a agent_env \<Rightarrow> string \<Rightarrow> enat \<Rightarrow> 'a loop_state \<Rightarrow> (string + 'a loop_state) option"
    fix e c cap st r
    assume IH: "\<And>e c cap st r. loop e c cap st = Some r \<Longrightarrow> (e = env \<and> c = cid \<and> I st) \<longrightarrow> ?post r"
    assume body: "(if enat (iteration st) < cap then
        (case callLLMNonStream e (iteration st + 1) (conversationHistory st) of
           Inl e \<Rightarrow> Some (Inl e)
         | Inr result \<Rightarrow>
             (case (case JSON_parse e (llm_text result) of
                      Some r \<Rightarrow> Some r
                    | None \<Rightarrow> JSON_parse e (sanitize (llm_text result))) of
                None \<Rightarrow>
                  loop e c cap
                    (st\<lparr>iteration := iteration st + 1,
                        conversationHistory := conversationHistory st
                          @ [\<lparr>role = ''user'', content = invalidJsonNotice\<rparr>]\<rparr>)
              | Some agentResponse \<Rightarrow>
                  (if taskComplete agentResponse
                   then Some (Inr (processResponse e c result agentResponse
                                     (st\<lparr>iteration := iteration st + 1\<rparr>)))
                   else loop e c cap
                          (processResponse e c result agentResponse
                             (st\<lparr>iteration := iteration st + 1\<rparr>)))))
      else Some (Inr st)) = Some r"
    show "(e = env \<and> c = cid \<and> I st) \<longrightarrow> ?post r"
    proof
      assume pre: "e = env \<and> c = cid \<and> I st"
      then have e: "e = env" and c: "c = cid" and inv0: "I st" by simp_all
      show "?post r"
      proof (cases "enat (iteration st) < cap")
        case False
        with body inv0 show ?thesis by auto
      next
        case True
        show ?thesis
        proof (cases "callLLMNonStream e (iteration st + 1) (conversationHistory st)")
          case (Inl err)
          with True body show ?thesis by auto
        next
          case (Inr result)
          show ?thesis
          proof (cases "case JSON_parse e (llm_text result) of Some r \<Rightarrow> Some r
                        | None \<Rightarrow> JSON_parse e (sanitize (llm_text result))")
            case None
            with True Inr body have
              "loop e c cap (st\<lparr>iteration := iteration st + 1,
                  conversationHistory := conversationHistory st
                    @ [\<lparr>role = ''user'', content = invalidJsonNotice\<rparr>]\<rparr>) = Some r"
              by simp
            from IH[OF this] e c notice[OF inv0] show ?thesis by simp
          next
            case (Some agentResponse)
            let ?st = "processResponse e c result agentResponse (st\<lparr>iteration := iteration st + 1\<rparr>)"
            have inv1: "I ?st"
              using step[OF inv0] e c by simp
            show ?thesis
            proof (cases "taskComplete agentResponse")
              case True
              with \<open>enat (iteration st) < cap\<close> Inr Some body have "r = Inr ?st" by simp
              with inv1 show ?thesis by simp
            next
              case False
              with \<open>enat (iteration st) < cap\<close> Inr Some body have "loop e c cap ?st = Some r"
                by simp
              from IH[OF this] e c inv1 show ?thesis by simp
            qed
          qed
        qed
      qed
    qed
  qed
  from this[OF run] init show ?thesis by simp
qed

text \<open>No file entry the loop produces has the \<open>isNew\<close> property.\<close>

lemma no_isNew_trackModifications:
  "list_all (\<lambda>f. isNew f = None) (fst acc) \<Longrightarrow>
   list_all (\<lambda>f. isNew f = None) (fst (trackModifications cmds acc))"
  by (induction cmds acc rule: trackModifications.induct) simp_all

lemma no_isNew_processResponse:
  "list_all (\<lambda>f. isNew f = None) (filesModified st) \<Longrightarrow>
   list_all (\<lambda>f. isNew f = None) (filesModified (processResponse env cid result agentResponse st))"
  using no_isNew_trackModifications[of "(filesModified st, dbQueries st)"]
  by (auto simp add: processResponse_def Let_def split: prod.splits) (metis fstI)

lemma agenticLoop_no_isNew:
  assumes "agenticLoop env cid cap st = Some (Inr st')"
    and "list_all (\<lambda>f. isNew f = None) (filesModified st)"
  shows "list_all (\<lambda>f. isNew f = None) (filesModified st')"
  using assms(1)
proof (rule agenticLoop_invariant [where I = "\<lambda>u. list_all (\<lambda>f. isNew f = None) (filesModified u)"])
  show "list_all (\<lambda>f. isNew f = None) (filesModified st)" by (rule assms(2))
next
  fix u :: "'a loop_state"
  assume "list_all (\<lambda>f. isNew f = None) (filesModified u)"
  then show "list_all (\<lambda>f. isNew f = None)
       (filesModified (u\<lparr>iteration := iteration u + 1,
             conversationHistory := conversationHistory u
               @ [\<lparr>role = ''user'', content = invalidJsonNotice\<rparr>]\<rparr>))"
    by simp
next
  fix u :: "'a loop_state" and result resp
  assume "list_all (\<lambda>f. isNew f = None) (filesModified u)"
  then show "list_all (\<lambda>f. isNew f = None)
       (filesModified (processResponse env cid result resp (u\<lparr>iteration := iteration u + 1\<rparr>)))"
    by (intro no_isNew_processResponse) simp
qed

lemma runAgenticLoop_no_isNew:
  assumes "runAgenticLoop env params sbx table = Some (Inr res, table')"
  shows "list_all (\<lambda>f. isNew f = None) (result_filesModified res)"
proof -
  from assms obtain st where
    loop: "agenticLoop env (arg_containerId params) (arg_maxIterations params)
             (initialState params sbx) = Some (Inr st)"
    and res: "result_filesModified res = filesModified st"
    by (auto simp: runAgenticLoop_def trackMessageCost_def Let_def
        split: option.splits sum.splits prod.splits)
  from agenticLoop_no_isNew[OF loop] res show ?thesis by (simp add: initialState_sel)
qed

lemma determineModificationType_no_isNew:
  "list_all (\<lambda>f. isNew f = None) files \<Longrightarrow> determineModificationType files \<noteq> ''endpoints_added''"
  by (induction files) (auto simp: determineModificationType_def truthy_def Let_def)

text \<open>
  Whatever the agent writes, the classification of the files a loop run returns is
  never \<open>endpoints_added\<close>.
\<close>

lemma runAgenticLoop_never_endpoints_added:
  assumes "runAgenticLoop env params sbx table = Some (Inr res, table')"
  shows "determineModificationType (result_filesModified res) \<noteq> ''endpoints_added''"
  using runAgenticLoop_no_isNew[OF assms] by (rule determineModificationType_no_isNew)

text \<open>
  The classification does follow the stated rule on lists whose entries carry \<open>isNew\<close>.
\<close>

lemma determineModificationType_rule:
  "determineModificationType files =
     (if \<exists>f \<in> set files. fileType f = ''route'' \<and> isNew f = Some True then ''endpoints_added''
      else if \<exists>f \<in> set files. fileType f = ''route'' \<and> isNew f \<noteq> Some True then ''endpoints_modified''
      else ''business_logic_modified'')"
  by (auto simp: determineModificationType_def truthy_def Let_def list_ex_iff)

text \<open>
  When the loop returns a result, exactly one row was appended to the cost table, tagged
  \<open>agentic-container-execution\<close> with the loop's model.
\<close>

lemma runAgenticLoop_one_cost_row:
  assumes "runAgenticLoop env params sbx table = Some (Inr res, table')"
  shows "\<exists>row. table' = table @ [row] \<and> message_type row = ''agentic-container-execution''
           \<and> model row = ''grok-4-fast''"
  using assms
  by (auto simp: runAgenticLoop_def trackMessageCost_def Let_def
      split: option.splits sum.splits prod.splits)

text \<open>When the cost row's \<open>INSERT\<close> throws, a run that leaves the loop ends in that error.\<close>

lemma runAgenticLoop_insert_failure:
  assumes "pool_query env = (\<lambda>row. Some e)"
    and "runAgenticLoop env params sbx table = Some out"
  shows "\<exists>e'. out = (Inl e', table)"
  using assms
  by (auto simp: runAgenticLoop_def trackMessageCost_def Let_def
      split: option.splits sum.splits prod.splits)

lemma sanitize_plain_reply:
  "sanitize ''Sure! Here is what I will do.'' = ''Sure! Here is what I will do.''"
  by (simp add: sanitize_def)

text \<open>
  Claim C3. A failure while writing the cost row is claimed to be swallowed.
  \<open>trackMessageCost\<close> logs and rethrows, and \<open>runAgenticLoop\<close> awaits it outside any \<open>try\<close>:
  in the run below the agent completes the task in its first iteration, the \<open>INSERT\<close>
  throws, and both \<open>trackMessageCost\<close> and the whole loop invocation end in that error.
\<close>

theorem C3_cost_write_failure_propagates:
  "trackMessageCost (\<lambda>row. Some ''Connection terminated unexpectedly'') 10 5 ''p5'' ''r1'' ''u1''
       ''add GET /api/users/[id]'' ''agentic-container-execution'' ''grok-4-fast'' []
     = (Inl ''Connection terminated unexpectedly'', [])
   \<and> runAgenticLoop (demo_env replies_done (Some ''Connection terminated unexpectedly''))
        (demo_params \<infinity>) [] []
     = Some (Inl ''Connection terminated unexpectedly'', [])"
  by (simp add: runAgenticLoop_def agenticLoop_complete demo_env_def demo_params_def initialState_def replies_done_def
      demo_JSON_parse_def response_done_def processResponse_def trackMessageCost_def Let_def)

text \<open>
  Claim C5. The single cost row is claimed to aggregate the tokens of all iterations,
  unparseable ones included. In the run below the first reply (100 input and 50 output
  tokens) does not parse and the second (10 and 5) completes the task: the loop ran two
  iterations and the one row written holds 10 and 5, not 110 and 55, because the
  \<open>continue\<close> of the recovery path skips the accumulation.
\<close>

theorem C5_unparseable_iteration_tokens_not_counted:
  "(case runAgenticLoop (demo_env replies_invalid_then_done None) (demo_params \<infinity>) [] [] of
      Some (Inr res, table) \<Rightarrow>
        iterations res = 2
        \<and> map (\<lambda>r. (message_type r, input_tokens r, output_tokens r)) table
             = [(''agentic-container-execution'', 10, 5)]
        \<and> inputTokens (replies_invalid_then_done 1) + inputTokens (replies_invalid_then_done 2) = 110
        \<and> outputTokens (replies_invalid_then_done 1) + outputTokens (replies_invalid_then_done 2) = 55
    | _ \<Rightarrow> False)"
proof -
  let ?env = "demo_env replies_invalid_then_done None"
  let ?st0 = "initialState (demo_params \<infinity>) ([] :: (string \<times> string) list)"
  let ?st1 = "?st0\<lparr>iteration := iteration ?st0 + 1,
      conversationHistory := conversationHistory ?st0
        @ [\<lparr>role = ''user'', content = invalidJsonNotice\<rparr>]\<rparr>"
  let ?r2 = "\<lparr>llm_text = json_done, inputTokens = 10, outputTokens = 5\<rparr>"
  have first: "agenticLoop ?env ''c1'' \<infinity> ?st0 = agenticLoop ?env ''c1'' \<infinity> ?st1"
    by (rule agenticLoop_invalid
          [where result = "\<lparr>llm_text = ''Sure! Here is what I will do.'', inputTokens = 100,
                             outputTokens = 50\<rparr>"])
       (simp_all add: demo_env_sel initialState_sel replies_invalid_then_done_def
          demo_JSON_parse_def json_done_def json_write_route_def sanitize_plain_reply)
  define stf where
    "stf = processResponse ?env ''c1'' ?r2 response_done (?st1\<lparr>iteration := iteration ?st1 + 1\<rparr>)"
  have second: "agenticLoop ?env ''c1'' \<infinity> ?st1 = Some (Inr stf)"
    unfolding stf_def
    by (rule agenticLoop_complete [where result = ?r2 and agentResponse = response_done])
       (simp_all add: demo_env_sel initialState_sel replies_invalid_then_done_def
          demo_JSON_parse_def response_done_def)
  have final: "totalInputTokens stf = 10" "totalOutputTokens stf = 5" "iteration stf = 2"
    unfolding stf_def
    by (simp_all add: processResponse_def Let_def response_done_def initialState_sel
        split: prod.splits)
  have args: "arg_containerId (demo_params \<infinity>) = ''c1''" "arg_maxIterations (demo_params \<infinity>) = \<infinity>"
    by (simp_all add: demo_params_def)
  show ?thesis
    unfolding runAgenticLoop_def args first second
    by (simp add: final replies_invalid_then_done_def trackMessageCost_def Let_def demo_env_sel)
qed

text \<open>
  Claim C6. \<open>success\<close> is claimed to be true exactly when the loop ended because the agent
  set \<open>taskComplete\<close>. With \<open>maxIterations = 1\<close> and an agent that completes the task in its
  first (and last permitted) iteration, the loop leaves by \<open>break\<close> with \<open>iteration = 1\<close>, and
  the result computes \<open>success\<close> as \<open>iteration < maxIterations\<close>: it is false, and the
  summary reports that the cap was reached.
\<close>

theorem C6_taskComplete_on_last_iteration_reports_failure:
  "(case runAgenticLoop (demo_env replies_done None) (demo_params (enat 1)) [] [] of
      Some (Inr res, table) \<Rightarrow>
        taskComplete response_done
        \<and> iterations res = 1
        \<and> success res = False
        \<and> result_summary res = ''Max iterations reached before task completion''
    | _ \<Rightarrow> False)"
  by (simp add: runAgenticLoop_def agenticLoop_complete demo_env_def demo_params_def initialState_def replies_done_def
      demo_JSON_parse_def response_done_def processResponse_def trackMessageCost_def Let_def)

text \<open>
  Claim C7. A modification run in which the agent writes a brand-new route file is
  claimed to record \<open>endpoints_added\<close>. The loop's file entries never carry \<open>isNew\<close>
  (\<open>runAgenticLoop_never_endpoints_added\<close>), so for the run below, in which the agent
  writes the new file \<open>server/api/users/[id].get.js\<close>, the classification of the returned
  list is \<open>endpoints_modified\<close>.
\<close>

theorem C7_new_route_file_classified_as_modified:
  "(case runAgenticLoop (demo_env replies_write_route None) (demo_params \<infinity>) [] [] of
      Some (Inr res, table) \<Rightarrow>
        map (\<lambda>f. (path f, fileType f, isNew f)) (result_filesModified res)
          = [(''server/api/users/[id].get.js'', ''route'', None)]
        \<and> determineModificationType (result_filesModified res) = ''endpoints_modified''
    | _ \<Rightarrow> False)"
  by (simp add: runAgenticLoop_def agenticLoop_complete demo_env_def demo_params_def initialState_def
      replies_write_route_def demo_JSON_parse_def response_write_route_def processResponse_def
      trackMessageCost_def Let_def json_done_def json_write_route_def demo_sandbox_def
      writeFileInContainer_def result_entry_def determineFileType_def determineModificationType_def truthy_def)

text \<open>
  Claim C10. Every path that derives the project database name is claimed to yield
  \<open>turbobackend_proj_\<close> followed by the lowercased, underscore-separated project id. The
  provisioner does (\<open>provisionAndCreateTables_dbName_spec\<close>), and every app-name path does
  (\<open>appName_spec\<close>), but the dev-database executor omits the lowercasing: for the project
  id \<open>AbC-1\<close> it derives \<open>turbobackend_proj_AbC_1\<close>, while the provisioner and the
  specification give \<open>turbobackend_proj_abc_1\<close>.
\<close>

theorem C10_devDatabaseExecutor_dbName_not_lowercased:
  "executeDevDatabaseQueries_dbName ''AbC-1'' = ''turbobackend_proj_AbC_1''
   \<and> spec_dbName ''AbC-1'' = ''turbobackend_proj_abc_1''
   \<and> provisionAndCreateTables_dbName ''AbC-1'' = ''turbobackend_proj_abc_1''
   \<and> executeDevDatabaseQueries_dbName ''AbC-1'' \<noteq> spec_dbName ''AbC-1''"
  by code_simp

section \<open>Facts about the pipelines\<close>

lemma terminalsOn_append:
  "terminalsOn sid (xs @ ys) = terminalsOn sid xs @ terminalsOn sid ys"
  by (simp add: terminalsOn_def onChannel_def)

lemma terminalsOn_single:
  "terminalsOn sid [(ch, m)] = (if ch = sid \<and> isTerminal m then [m] else [])"
  by (simp add: terminalsOn_def onChannel_def)

lemma published_tick: "published (tick s) = published s"
  by (simp add: tick_def)

lemma bookkeeping_tick: "bookkeeping f \<Longrightarrow> f (tick s) = f s"
  by (simp add: bookkeeping_def tick_def)

lemma bookkeeping_control: "bookkeeping f \<Longrightarrow> f (s\<lparr>control := c\<rparr>) = f s"
  by (simp add: bookkeeping_def)

lemma bookkeeping_views:
  "bookkeeping (\<lambda>s. terminalsOn sid (published s))"
  "bookkeeping published"
  "bookkeeping cluster"
  by (simp_all add: bookkeeping_def)

lemma offcluster_views:
  "offcluster (\<lambda>s. terminalsOn sid (published s))"
  "offcluster published"
  by (simp_all add: offcluster_def)

lemma unpublished_cluster: "unpublished cluster"
  by (simp add: unpublished_def)

lemma preserves_return: "preserves f (job_return a)"
  by (simp add: preserves_def job_return_def)

lemma preserves_throw: "preserves f (job_throw e)"
  by (simp add: preserves_def job_throw_def)

lemma preserves_bind:
  assumes m: "preserves f m" and g: "\<And>a. preserves f (g a)"
  shows "preserves f (job_bind m g)"
  unfolding preserves_def
proof
  fix s
  obtain r s' where ms: "m s = (r, s')" by (cases "m s")
  from m have s': "f s' = f s"
    unfolding preserves_def by (metis ms snd_conv)
  show "f (snd (job_bind m g s)) = f s"
  proof (cases r)
    case (Inl e)
    with s' show ?thesis by (simp add: job_bind_def ms)
  next
    case (Inr a)
    from g[of a] have "f (snd (g a s')) = f s'"
      unfolding preserves_def by blast
    with s' Inr show ?thesis by (simp add: job_bind_def ms)
  qed
qed

lemma preserves_try_catch:
  assumes m: "preserves f m" and h: "\<And>e. preserves f (h e)"
  shows "preserves f (try_catch m h)"
  unfolding preserves_def
proof
  fix s
  obtain r s' where ms: "m s = (r, s')" by (cases "m s")
  from m have s': "f s' = f s"
    unfolding preserves_def by (metis ms snd_conv)
  show "f (snd (try_catch m h s)) = f s"
  proof (cases r)
    case (Inl e)
    from h[of e] have "f (snd (h e s')) = f s'"
      unfolding preserves_def by blast
    with s' Inl show ?thesis by (simp add: try_catch_def ms)
  next
    case (Inr a)
    with s' show ?thesis by (simp add: try_catch_def ms)
  qed
qed

lemma preserves_swallow: "preserves f m \<Longrightarrow> preserves f (swallow m)"
  by (simp add: swallow_def preserves_try_catch preserves_return)

lemma preserves_rethrow: "preserves f m \<Longrightarrow> preserves f (rethrow p m)"
  by (simp add: rethrow_def preserves_try_catch preserves_throw)

lemma preserves_try_finally:
  assumes m: "preserves f m" and fin: "preserves f g"
  shows "preserves f (try_finally m g)"
  unfolding preserves_def
proof
  fix s
  obtain r s' where ms: "m s = (r, s')" by (cases "m s")
  obtain r2 s2 where gs: "g s' = (r2, s2)" by (cases "g s'")
  from m have "f s' = f s"
    unfolding preserves_def by (metis ms snd_conv)
  moreover from fin have "f s2 = f s'"
    unfolding preserves_def by (metis gs snd_conv)
  ultimately show "f (snd (try_finally m g s)) = f s"
    by (cases r2) (simp_all add: try_finally_def ms gs)
qed

lemma preserves_exec_all: "list_all (preserves f) ms \<Longrightarrow> preserves f (exec_all ms)"
  by (induction ms) (simp_all add: preserves_return preserves_bind)

lemma preserves_when_do: "preserves f m \<Longrightarrow> preserves f (when_do c m)"
  by (simp add: when_do_def preserves_return)


lemma preserves_await: "bookkeeping f \<Longrightarrow> preserves f (await env label)"
  by (simp add: preserves_def await_def bookkeeping_tick split: option.splits)

lemma preserves_client_query: "bookkeeping f \<Longrightarrow> preserves f (client_query env q)"
  by (simp add: preserves_def client_query_def bookkeeping_tick bookkeeping_control
      split: option.splits)

lemma preserves_guard: "preserves f (guard g)"
  by (simp add: preserves_def guard_def split: option.splits)

lemma preserves_rollbackInCatch: "bookkeeping f \<Longrightarrow> preserves f (rollbackInCatch env)"
  by (simp add: preserves_def rollbackInCatch_def bookkeeping_tick bookkeeping_control
      split: option.splits)

lemma preserves_cluster_create:
  "bookkeeping f \<Longrightarrow> offcluster f \<Longrightarrow> preserves f (cluster_create env n)"
  by (simp add: preserves_def cluster_create_def bookkeeping_tick offcluster_def
      split: option.splits)

lemma preserves_cluster_commit:
  "bookkeeping f \<Longrightarrow> offcluster f \<Longrightarrow> preserves f (cluster_commit env n ss)"
  by (simp add: preserves_def cluster_commit_def bookkeeping_tick offcluster_def
      split: option.splits)

lemma preserves_trackActivity: "bookkeeping f \<Longrightarrow> preserves f (trackActivity env p r a)"
  by (simp add: trackActivity_def preserves_swallow preserves_client_query)

lemma preserves_publish_unpublished:
  "bookkeeping f \<Longrightarrow> unpublished f \<Longrightarrow> preserves f (publishToChannel env ch m)"
  by (simp add: preserves_def publishToChannel_def bookkeeping_tick unpublished_def
      split: option.splits)

lemma quiet_publish_nonterminal:
  "\<not> isTerminal m \<Longrightarrow> preserves (\<lambda>s. terminalsOn sid (published s)) (publishToChannel env ch m)"
  by (simp add: preserves_def publishToChannel_def published_tick terminalsOn_append
      terminalsOn_single split: option.splits)

lemma quiet_publishProgress:
  "preserves (\<lambda>s. terminalsOn sid (published s)) (publishProgress env ch msg p)"
  by (simp add: publishProgress_def quiet_publish_nonterminal)

lemma quiet_publish_Typed:
  "preserves (\<lambda>s. terminalsOn sid (published s)) (publishToChannel env ch (Typed t))"
  by (simp add: quiet_publish_nonterminal)

lemma cluster_publish:
  "preserves cluster (publishToChannel env ch m)"
  "preserves cluster (publishProgress env ch msg p)"
  "preserves cluster (publishSuccess env ch msg)"
  "preserves cluster (publishError env ch msg)"
  by (simp_all add: publishProgress_def publishSuccess_def publishError_def
      preserves_publish_unpublished bookkeeping_views unpublished_cluster)

lemmas preserves_rules =
  preserves_return preserves_throw preserves_swallow preserves_rethrow preserves_try_finally
  preserves_try_catch preserves_exec_all preserves_when_do preserves_await
  preserves_client_query preserves_guard preserves_cluster_create preserves_cluster_commit
  preserves_rollbackInCatch preserves_trackActivity quiet_publishProgress quiet_publish_Typed
  cluster_publish bookkeeping_views offcluster_views

lemma preserves_provisionDaytonaContainer:
  "bookkeeping f \<Longrightarrow> preserves f (provisionDaytonaContainer env)"
  by (simp add: provisionDaytonaContainer_def preserves_rules)

lemma preserves_getProjectGitHubRepo:
  "bookkeeping f \<Longrightarrow> preserves f (getProjectGitHubRepo env p)"
  by (simp add: getProjectGitHubRepo_def preserves_rules del: exec_all.simps)

lemma preserves_addTablesToExistingDatabase:
  "bookkeeping f \<Longrightarrow> preserves f (addTablesToExistingDatabase env p qs)"
  by (simp add: addTablesToExistingDatabase_def preserves_rules del: exec_all.simps)






text \<open>
  No statement of the modification pipeline reaches the cluster: whatever the
  environment and the agent's result, every project database is left as it was.
\<close>

lemma cluster_modificationPhases:
  "preserves cluster (modificationPhases env j request sid)"
  unfolding modificationPhases_def
  by (simp add: preserves_rules preserves_provisionDaytonaContainer preserves_getProjectGitHubRepo
        preserves_addTablesToExistingDatabase del: exec_all.simps)

lemma cluster_logMCPRequest: "preserves cluster (logMCPRequest env j)"
  by (simp add: preserves_def logMCPRequest_def tick_def split: option.splits)

lemma cluster_projectModificationProcessor:
  "preserves cluster (projectModificationProcessor env j)"
proof -
  have "preserves cluster (handleProjectModificationOrchestration env j request sid)" for request sid
  proof -
    have "preserves cluster
            (try_catch (modificationBody env j request sid)
               (\<lambda>e. exec_all [rollbackInCatch env,
                               publishError env sid (''Modification failed: '' @ e),
                               job_throw e]))"
      unfolding modificationBody_def
      by (intro preserves_try_catch preserves_exec_all)
         (simp_all add: preserves_rules cluster_modificationPhases)
    then show ?thesis
      unfolding preserves_def handleProjectModificationOrchestration_def withClient_def
      by (simp split: option.splits)
  qed
  then show ?thesis
    unfolding projectModificationProcessor_def
    by (intro preserves_bind cluster_logMCPRequest)
qed













text \<open>The concrete environment, job and agent result, field by field.\<close>

lemma demo_pipeline_env_sel:
  "connectThrows (demo_pipeline_env a r) = None"
  "logRequestThrows (demo_pipeline_env a r) = None"
  "rollbackThrows (demo_pipeline_env a r) = None"
  "throws (demo_pipeline_env a r) = (\<lambda>k. None)"
  "publishThrows (demo_pipeline_env a r) = (\<lambda>k. None)"
  "needsAuth (demo_pipeline_env a r) = a"
  "needsPayments (demo_pipeline_env a r) = False"
  "needsDatabase (demo_pipeline_env a r) = False"
  "agentResult (demo_pipeline_env a r) = r"
  "flyAppSuccess (demo_pipeline_env a r) = True"
  "blueprintRowFound (demo_pipeline_env a r) = True"
  "successText (demo_pipeline_env a r) = ''Done''"
  "nowSeconds (demo_pipeline_env a r) = 1700000000"
  "nowMillis (demo_pipeline_env a r) = ''1700000000000''"
  "newRequestId (demo_pipeline_env a r) = ''r1''"
  "flyApiTokenSet (demo_pipeline_env a r) = True"
  "flyctlExitCode (demo_pipeline_env a r) = 0"
  by (simp_all add: demo_pipeline_env_def)

lemma demo_agent_result_sel:
  "result_filesModified (demo_agent_result files queries) = files"
  "result_dbQueries (demo_agent_result files queries) = queries"
  "blueprintModified (demo_agent_result [] queries) = False"
  "createTableQueriesOf (demo_agent_result files []) = []"
  by (simp_all add: demo_agent_result_def blueprintModified_def createTableQueriesOf_def)

lemma demo_job_sel:
  "jobName (demo_job n p) = n"
  "streamId (demo_job n p) = ''s1''"
  "data_project_id (demo_job n p) = p"
  "shouldRedeploy (demo_job n p) = False"
  by (simp_all add: demo_job_def)

lemmas run_defs =
  job_bind_def job_return_def job_throw_def try_catch_def try_finally_def swallow_def
  rethrow_def when_do_def await_def client_query_def publishToChannel_def publishProgress_def
  publishSuccess_def publishError_def guard_def trackActivity_def tick_def
  rollbackInCatch_def withClient_def logMCPRequest_def provisionDaytonaContainer_def

lemmas pipeline_defs =
  workerProcess_def getProcessor_def initialProjectCreationProcessor_def
  handleProjectCreationOrchestration_def creationBody_def creationPhases_def
  projectModificationProcessor_def handleProjectModificationOrchestration_def
  modificationBody_def modificationPhases_def getProjectGitHubRepo_def
  addTablesToExistingDatabase_def
  storeCredentialPlaceholders_def activeRows_def


lemma startsWith_append: "startsWith (needle @ rest) needle"
  by (induction needle) simp_all

lemma str_includes_append: "str_includes (before @ needle @ rest) needle"
proof (induction before)
  case Nil
  show ?case
    by (cases "needle @ rest") (use startsWith_append[of needle rest] in auto)
next
  case (Cons c cs)
  then show ?case by simp
qed


text \<open>
  Running a job statement by statement: the outcome of the first statement decides
  whether the rest runs, and in which world.
\<close>

lemma queryType_demo_create_table_query:
  "queryType demo_create_table_query = ''CREATE TABLE''"
  by (simp add: demo_create_table_query_def)

lemma createTableQueriesOf_demo:
  "createTableQueriesOf (demo_agent_result [] [demo_create_table_query])
   = [demo_create_table_query]"
  by (simp add: createTableQueriesOf_def demo_agent_result_def demo_create_table_query_def)


lemma exec_all_done: "exec_all [] s = (Inr (), s)"
  by (simp add: job_return_def)

lemma exec_all_run:
  "exec_all (m # ms) s
   = (if isl (fst (m s)) then (Inl (projl (fst (m s))), snd (m s)) else exec_all ms (snd (m s)))"
  by (cases "m s"; cases "fst (m s)") (auto simp add: job_bind_def)

lemma job_bind_run:
  "job_bind m f s
   = (if isl (fst (m s)) then (Inl (projl (fst (m s))), snd (m s))
      else f (projr (fst (m s))) (snd (m s)))"
  by (cases "m s"; cases "fst (m s)") (auto simp add: job_bind_def)

lemma try_catch_run:
  "try_catch m h s = (if isl (fst (m s)) then h (projl (fst (m s))) (snd (m s)) else m s)"
  by (cases "m s"; cases "fst (m s)") (auto simp add: try_catch_def)

lemmas stepwise =
  exec_all_done exec_all_run job_bind_run try_catch_run job_return_def job_throw_def
  swallow_def rethrow_def when_do_def await_def client_query_def publishToChannel_def
  publishProgress_def publishSuccess_def publishError_def guard_def trackActivity_def tick_def
  rollbackInCatch_def withClient_def logMCPRequest_def provisionDaytonaContainer_def

lemmas modification_defs =
  projectModificationProcessor_def handleProjectModificationOrchestration_def
  modificationBody_def modificationPhases_def getProjectGitHubRepo_def
  addTablesToExistingDatabase_def activeRows_def





text \<open>
  Claim C8. A modification job whose project has no active row in \<open>project_github_repos\<close>
  fails. With a fresh client (no transaction open), and when the request log, \<open>BEGIN\<close>, the
  repository \<open>SELECT\<close>, the \<open>ROLLBACK\<close> and the publishes do not themselves fail (\<open>BEGIN\<close> is
  the operation awaited at count \<open>steps s + 1\<close> and the \<open>SELECT\<close> the one at \<open>steps s + 5\<close>),
  the processor throws the error \<open>No GitHub repository found for project ...\<close>; the
  messages published are the two progress updates and then one terminal error whose text
  contains \<open>No GitHub repository found\<close>; the control database holds the rows it held
  before the job and the request-log row the processor wrote before the transaction was
  opened, with no transaction left open; and the cluster is untouched. Whether the sandbox
  could be provisioned makes no difference.
\<close>

theorem C8_missing_repo_fails_modification:
  assumes name: "jobName j = ''projectModificationJob''"
    and norepo: "activeRows ''project_github_repos'' (data_project_id j) (current (control s)) = []"
    and fresh: "snapshot (control s) = None"
    and connect: "connectThrows env = None"
    and logged: "logRequestThrows env = None"
    and begin_ok: "throws env (steps s + 1) = None"
    and select_ok: "throws env (steps s + 5) = None"
    and rollback: "rollbackThrows env = None"
    and publishes: "\<forall>k. publishThrows env k = None"
  shows "fst (workerProcess env j s) = Inl (noRepoMessage (data_project_id j))
       \<and> published (snd (workerProcess env j s))
         = published s
           @ [(streamId j, Progress ''Provisioning new sandbox...'' 10),
              (streamId j, Progress ''Sandbox provisioned'' 15),
              (streamId j,
               Complete (''Modification failed: '' @ noRepoMessage (data_project_id j)) True)]
       \<and> str_includes (''Modification failed: '' @ noRepoMessage (data_project_id j))
            ''No GitHub repository found''
       \<and> control (snd (workerProcess env j s))
         = \<lparr>current = current (control s)
              @ [\<lparr>tbl = ''mcp_requests'', r_project = data_project_id j,
                  r_request = newRequestId env, r_active = False,
                  r_created = nowSeconds env, r_detail = ''processing''\<rparr>],
            snapshot = None\<rparr>
       \<and> cluster (snd (workerProcess env j s)) = cluster s"
proof -
  have inc: "str_includes (''Modification failed: '' @ noRepoMessage (data_project_id j))
            ''No GitHub repository found''"
    unfolding noRepoMessage_def
    using str_includes_append[of "''Modification failed: ''" "''No GitHub repository found''"
        "'' for project '' @ data_project_id j"]
    by simp
  have w: "workerProcess env j = projectModificationProcessor env j"
    using name by (simp add: workerProcess_def getProcessor_def)
  have run: "projectModificationProcessor env j s
    = (Inl (noRepoMessage (data_project_id j)),
       \<lparr>published = published s
           @ [(streamId j, Progress ''Provisioning new sandbox...'' 10),
              (streamId j, Progress ''Sandbox provisioned'' 15),
              (streamId j,
               Complete (''Modification failed: '' @ noRepoMessage (data_project_id j)) True)],
        control = \<lparr>current = current (control s)
              @ [\<lparr>tbl = ''mcp_requests'', r_project = data_project_id j,
                  r_request = newRequestId env, r_active = False,
                  r_created = nowSeconds env, r_detail = ''processing''\<rparr>],
            snapshot = None\<rparr>,
        cluster = cluster s,
        steps = steps s + 8\<rparr>)"
  proof -
    have b: "throws env (Suc (steps s)) = None"
      using begin_ok by simp
    have q: "throws env (Suc (Suc (Suc (Suc (Suc (steps s)))))) = None"
      using select_ok by (simp add: eval_nat_numeral)
    show ?thesis
      using norepo fresh connect logged b q rollback publishes
      by (cases "throws env (Suc (Suc (Suc (steps s))))")
         (simp_all add: projectModificationProcessor_def handleProjectModificationOrchestration_def
        modificationBody_def modificationPhases_def getProjectGitHubRepo_def run_defs
        activeRows_def)
  qed
  show ?thesis
    unfolding w run using inc by simp
qed

theorem C8_witness:
  "fst (workerProcess (demo_pipeline_env False (demo_agent_result [] []))
          (demo_job ''projectModificationJob'' ''p9'') demo_world)
     = Inl ''No GitHub repository found for project p9''
   \<and> published (snd (workerProcess (demo_pipeline_env False (demo_agent_result [] []))
          (demo_job ''projectModificationJob'' ''p9'') demo_world))
     = [(''s1'', Progress ''Provisioning new sandbox...'' 10),
        (''s1'', Progress ''Sandbox provisioned'' 15),
        (''s1'', Complete ''Modification failed: No GitHub repository found for project p9'' True)]
   \<and> control (snd (workerProcess (demo_pipeline_env False (demo_agent_result [] []))
          (demo_job ''projectModificationJob'' ''p9'') demo_world))
     = \<lparr>current = current (control demo_world)
          @ [\<lparr>tbl = ''mcp_requests'', r_project = ''p9'', r_request = ''r1'', r_active = False,
              r_created = 1700000000, r_detail = ''processing''\<rparr>],
        snapshot = None\<rparr>"
  using C8_missing_repo_fails_modification
          [of "demo_job ''projectModificationJob'' ''p9''" demo_world
              "demo_pipeline_env False (demo_agent_result [] [])"]
  by (simp add: demo_pipeline_env_sel demo_job_sel demo_world_def activeRows_def noRepoMessage_def)

text \<open>
  Claim C4. The progress values published on a stream are claimed never to decrease on
  any path of the creation pipeline, the paths where the detectors answer yes included.
  The pipeline opens with progress 10 (line 38) and reports a positive authentication
  detection with progress 8 (line 57; a positive payment detection with 9, line 68). A
  creation run that needs authentication, where nothing fails, publishes
  10, 8, 20, 25, 28, 30, 70, 72, 74, 76, 77, 78.
\<close>

theorem C4_creation_progress_goes_back_after_auth_detection:
  "fst (workerProcess (demo_pipeline_env True (demo_agent_result [] []))
         (demo_job ''initialProjectCreationJob'' ''p1'') demo_world) = Inr ()
   \<and> progressValuesOn ''s1''
         (published (snd (workerProcess (demo_pipeline_env True (demo_agent_result [] []))
                          (demo_job ''initialProjectCreationJob'' ''p1'') demo_world)))
       = [10, 8, 20, 25, 28, 30, 70, 72, 74, 76, 77, 78]
   \<and> \<not> sorted (progressValuesOn ''s1''
         (published (snd (workerProcess (demo_pipeline_env True (demo_agent_result [] []))
                          (demo_job ''initialProjectCreationJob'' ''p1'') demo_world))))"
proof -
  have run: "progressValuesOn ''s1''
         (published (snd (workerProcess (demo_pipeline_env True (demo_agent_result [] []))
                          (demo_job ''initialProjectCreationJob'' ''p1'') demo_world)))
       = [10, 8, 20, 25, 28, 30, 70, 72, 74, 76, 77, 78]"
    by (simp add: pipeline_defs demo_agent_result_sel demo_pipeline_env_sel demo_job_sel
        run_defs demo_world_def progressValuesOn_def onChannel_def)
  have ok: "fst (workerProcess (demo_pipeline_env True (demo_agent_result [] []))
         (demo_job ''initialProjectCreationJob'' ''p1'') demo_world) = Inr ()"
    by (simp add: pipeline_defs demo_agent_result_sel demo_pipeline_env_sel demo_job_sel
        run_defs demo_world_def)
  show ?thesis
    unfolding run using ok by simp
qed

text \<open>
  Claim C2. The \<open>CREATE TABLE\<close> queries of a modification are claimed to be executed on
  the project's existing database. \<open>addTablesToExistingDatabase\<close> looks the database up and
  stops at a \<open>TODO\<close>; no statement of the pipeline reaches the cluster
  (\<open>cluster_projectModificationProcessor\<close>). For project \<open>p5\<close>, whose database holds the table
  \<open>users\<close>, a modification whose loop produced \<open>CREATE TABLE comments (id text)\<close> returns
  successfully and records the activity \<open>tables_added\<close>, and the database still holds only
  \<open>users\<close>.
\<close>

theorem C2_create_table_query_never_reaches_the_database:
  "createTableQueriesOf (demo_agent_result [] [demo_create_table_query])
     = [demo_create_table_query]
   \<and> fst (workerProcess (demo_pipeline_env False (demo_agent_result [] [demo_create_table_query]))
           (demo_job ''projectModificationJob'' ''p5'') demo_world) = Inr ()
   \<and> cluster (snd (workerProcess
                      (demo_pipeline_env False (demo_agent_result [] [demo_create_table_query]))
                      (demo_job ''projectModificationJob'' ''p5'') demo_world))
     = [(''turbobackend_proj_p5'', [''CREATE TABLE users (id text)''])]
   \<and> map r_detail
        (filter (\<lambda>r. tbl r = ''project_actions'')
           (current (control (snd (workerProcess
                      (demo_pipeline_env False (demo_agent_result [] [demo_create_table_query]))
                      (demo_job ''projectModificationJob'' ''p5'') demo_world)))))
     = [''tables_added'', ''github_push'']"
proof -
  have w: "workerProcess (demo_pipeline_env False (demo_agent_result [] [demo_create_table_query]))
             (demo_job ''projectModificationJob'' ''p5'')
           = projectModificationProcessor
               (demo_pipeline_env False (demo_agent_result [] [demo_create_table_query]))
               (demo_job ''projectModificationJob'' ''p5'')"
    by (simp add: workerProcess_def getProcessor_def demo_job_sel)
  have run: "projectModificationProcessor
               (demo_pipeline_env False (demo_agent_result [] [demo_create_table_query]))
               (demo_job ''projectModificationJob'' ''p5'') demo_world
    = (Inr (),
       \<lparr>published =
          [(''s1'', Progress ''Provisioning new sandbox...'' 10),
           (''s1'', Progress ''Sandbox provisioned'' 15),
           (''s1'', Progress ''Repository found'' 20),
           (''s1'', Progress ''Project cloned'' 25),
           (''s1'', Progress ''Feature branch created: feature/modification-1700000000000'' 30),
           (''s1'', Progress ''Project context loaded'' 35),
           (''s1'', Progress ''Processing modifications'' 40),
           (''s1'', Progress ''Modifications complete'' 70),
           (''s1'', Progress ''Feature branch pushed'' 80),
           (''s1'', Progress ''Changes merged to main'' 85),
           (''s1'', Complete ''Done'' False)],
        control =
          \<lparr>current = current (control demo_world)
             @ [\<lparr>tbl = ''mcp_requests'', r_project = ''p5'', r_request = ''r1'',
                 r_active = False, r_created = 1700000000, r_detail = ''processing''\<rparr>,
                \<lparr>tbl = ''project_actions'', r_project = ''p5'', r_request = ''r1'',
                 r_active = False, r_created = 1700000000, r_detail = ''tables_added''\<rparr>,
                \<lparr>tbl = ''project_actions'', r_project = ''p5'', r_request = ''r1'',
                 r_active = False, r_created = 1700000000, r_detail = ''github_push''\<rparr>,
                \<lparr>tbl = ''container_sessions'', r_project = ''p5'', r_request = ''r1'',
                 r_active = False, r_created = 1700000000, r_detail = ''completed''\<rparr>],
           snapshot = None\<rparr>,
        cluster = [(''turbobackend_proj_p5'', [''CREATE TABLE users (id text)''])],
        steps = 29\<rparr>)"
    by (simp add: modification_defs createTableQueriesOf_demo demo_agent_result_sel
        demo_pipeline_env_sel demo_job_sel stepwise demo_world_def del: exec_all.simps)
  show ?thesis
    unfolding w run using createTableQueriesOf_demo by (simp add: demo_world_def)
qed

end
